theory Spec2Isabelle
  imports Main
begin

section \<open>Pooling kernel construction for the CPU transformer\<close>

text \<open>
  This theory embeds \<^verbatim>\<open>src/ngraph/transformers/cpu/pooling.c\<close>: the two builders
  \<^verbatim>\<open>create_mkldnn_pool_fprop_kernel\<close> and \<^verbatim>\<open>create_mkldnn_pool_bprop_kernel\<close>.
  Both are straight-line C functions that call the MKL-DNN library, write the fields of an
  opkernel object through a pointer, and end by appending the created primitive to the
  opkernel's net.

  The MKL-DNN library is not part of the repository. Its functions are taken as a parameter
  (the record \<open>mkldnn_api\<close> below) and every call the builders make is written to a call log,
  so that what the builders pass to the library can be stated. The headers
  \<^verbatim>\<open>mkldnn_engine.h\<close> and \<^verbatim>\<open>mkldnn_util.h\<close> of the repository are not among the sources
  either; what pooling.c uses of them (the opkernel structure, the macro \<^verbatim>\<open>MKL_CHECK\<close>, the two
  tensor helpers) is modelled below and marked as such.
\<close>

subsection \<open>Enumerations and handles of the library\<close>

text \<open>
  Each enumeration lists the members that pooling.c names; the remaining members of the
  library's enumeration are the constructor carrying their C value.
\<close>

datatype mkldnn_status = mkldnn_success | status_other nat

datatype mkldnn_data_type = DataType int

datatype mkldnn_memory_format = mkldnn_any | mkldnn_chwn | memory_format_other nat

datatype mkldnn_prop_kind = mkldnn_forward_training | prop_kind_other nat

datatype mkldnn_alg_kind = mkldnn_pooling_max | mkldnn_pooling_avg | alg_kind_other nat

datatype mkldnn_padding_kind = mkldnn_padding_zero | padding_kind_other nat

datatype mkldnn_query =
    mkldnn_query_src_pd
  | mkldnn_query_dst_pd
  | mkldnn_query_diff_src_pd
  | mkldnn_query_diff_dst_pd
  | mkldnn_query_workspace_pd
  | query_other nat

text \<open>Opaque handles. A C pointer to one of them is an \<open>option\<close>: \<open>None\<close> is \<^verbatim>\<open>NULL\<close>.\<close>

datatype mkldnn_engine = Engine nat

datatype mkldnn_primitive_desc = PrimitiveDesc nat

datatype mkldnn_primitive = Primitive nat

datatype mkldnn_pooling_desc = PoolingDesc nat

text \<open>
  \<^verbatim>\<open>mkldnn_memory_desc_t\<close> is a structure passed by value: shape, element type and layout
  tag. The builders never read its fields; they hand it from one library call to the next.
\<close>

record mkldnn_memory_desc =
  md_ndims :: int
  md_dims :: "int list"
  md_data_type :: mkldnn_data_type
  md_format :: mkldnn_memory_format

record mkldnn_primitive_at_t =
  primitive :: "mkldnn_primitive option"
  output_index :: nat

definition mkldnn_primitive_at :: "mkldnn_primitive option \<Rightarrow> nat \<Rightarrow> mkldnn_primitive_at_t" where
  "mkldnn_primitive_at p i = \<lparr>primitive = p, output_index = i\<rparr>"

subsection \<open>Tensors and opkernels (mkldnn\_util.h)\<close>

text \<open>
  Modelled from the spec: the tensor handle of \<^verbatim>\<open>mkldnn_util.h\<close>, which is not among the
  sources. pooling.c reads one member of it, \<^verbatim>\<open>prim\<close>, the executable handle.
\<close>

record mkldnn_tensor =
  prim :: "mkldnn_primitive option"

text \<open>
  Modelled from the spec: the opkernel structure of \<^verbatim>\<open>mkldnn_util.h\<close>, which is not among
  the sources. The fields are the members pooling.c accesses through \<^verbatim>\<open>opkernel->\<close>. The
  arrays have a fixed capacity in C; here each is a list whose length is that capacity, and
  \<open>net_size\<close> counts the entries of \<open>net\<close> in use.
\<close>

record mkldnn_opkernel =
  num_inputs :: int
  num_outputs :: int
  inputs :: "mkldnn_tensor list"
  outputs :: "mkldnn_tensor list"
  reorder_i :: "mkldnn_primitive option list"
  reorder_o :: "mkldnn_primitive option list"
  op_desc :: "mkldnn_primitive_desc option"
  op_prim :: "mkldnn_primitive option"
  net :: "mkldnn_primitive option list"
  net_size :: int

subsection \<open>Calls to the library\<close>

text \<open>One constructor per library function or tensor helper, with the arguments passed.\<close>

datatype mkldnn_call =
    MemoryDescInit int "int list" mkldnn_data_type mkldnn_memory_format
  | PoolingForwardDescInit mkldnn_prop_kind mkldnn_alg_kind mkldnn_memory_desc
      mkldnn_memory_desc "int list" "int list" "int list" "int list" mkldnn_padding_kind
  | PoolingBackwardDescInit mkldnn_alg_kind mkldnn_memory_desc mkldnn_memory_desc
      "int list" "int list" "int list" "int list" mkldnn_padding_kind
  | PrimitiveDescCreate mkldnn_pooling_desc mkldnn_engine "mkldnn_primitive_desc option"
  | PrimitiveDescQueryPd "mkldnn_primitive_desc option" mkldnn_query int
  | PrimitiveDescQueryMemoryD "mkldnn_primitive_desc option"
  | CreateTensor int "int list" mkldnn_data_type mkldnn_memory_format mkldnn_engine
  | CreateTensorFromMd int "int list" mkldnn_memory_desc mkldnn_engine
  | PrimitiveCreate "mkldnn_primitive_desc option" "mkldnn_primitive_at_t list"
      "mkldnn_primitive option list"

text \<open>
  The library, as a parameter. Every function receives the calls made so far as its first
  argument, so that its answer may depend on the library's state (handles already
  allocated, for instance). A function of C that returns a status and writes a result through
  a pointer returns the pair here. The last two fields stand for the engine work inside the
  tensor helpers of \<^verbatim>\<open>mkldnn_util\<close>.
\<close>

record mkldnn_api =
  memory_desc_init ::
    "mkldnn_call list \<Rightarrow> int \<Rightarrow> int list \<Rightarrow> mkldnn_data_type \<Rightarrow> mkldnn_memory_format
      \<Rightarrow> mkldnn_status \<times> mkldnn_memory_desc"
  pooling_forward_desc_init ::
    "mkldnn_call list \<Rightarrow> mkldnn_prop_kind \<Rightarrow> mkldnn_alg_kind \<Rightarrow> mkldnn_memory_desc
      \<Rightarrow> mkldnn_memory_desc \<Rightarrow> int list \<Rightarrow> int list \<Rightarrow> int list \<Rightarrow> int list
      \<Rightarrow> mkldnn_padding_kind \<Rightarrow> mkldnn_status \<times> mkldnn_pooling_desc"
  pooling_backward_desc_init ::
    "mkldnn_call list \<Rightarrow> mkldnn_alg_kind \<Rightarrow> mkldnn_memory_desc \<Rightarrow> mkldnn_memory_desc
      \<Rightarrow> int list \<Rightarrow> int list \<Rightarrow> int list \<Rightarrow> int list \<Rightarrow> mkldnn_padding_kind
      \<Rightarrow> mkldnn_status \<times> mkldnn_pooling_desc"
  primitive_desc_create ::
    "mkldnn_call list \<Rightarrow> mkldnn_pooling_desc \<Rightarrow> mkldnn_engine
      \<Rightarrow> mkldnn_primitive_desc option \<Rightarrow> mkldnn_status \<times> mkldnn_primitive_desc option"
  primitive_desc_query_pd ::
    "mkldnn_call list \<Rightarrow> mkldnn_primitive_desc option \<Rightarrow> mkldnn_query \<Rightarrow> int
      \<Rightarrow> mkldnn_primitive_desc option"
  primitive_desc_query_memory_d ::
    "mkldnn_call list \<Rightarrow> mkldnn_primitive_desc option \<Rightarrow> mkldnn_memory_desc option"
  primitive_create ::
    "mkldnn_call list \<Rightarrow> mkldnn_primitive_desc option \<Rightarrow> mkldnn_primitive_at_t list
      \<Rightarrow> mkldnn_primitive option list \<Rightarrow> mkldnn_status \<times> mkldnn_primitive option"
  tensor_create ::
    "mkldnn_call list \<Rightarrow> int \<Rightarrow> int list \<Rightarrow> mkldnn_data_type \<Rightarrow> mkldnn_memory_format
      \<Rightarrow> mkldnn_engine \<Rightarrow> mkldnn_status \<times> mkldnn_tensor"
  tensor_create_from_md ::
    "mkldnn_call list \<Rightarrow> int \<Rightarrow> int list \<Rightarrow> mkldnn_memory_desc \<Rightarrow> mkldnn_engine
      \<Rightarrow> mkldnn_status \<times> mkldnn_tensor"

subsection \<open>Program state and the monad of the builders\<close>

text \<open>
  The opkernels live in a store, since the backward builder is given two opkernel pointers
  that the caller may or may not make equal. A program either returns a value or stops with
  a failure; in both cases the state reached is kept, so that what had been written before a
  failure can be stated.
\<close>

record world =
  heap :: "nat \<Rightarrow> mkldnn_opkernel option"
  calls :: "mkldnn_call list"

datatype failure =
    Fatal mkldnn_status
  | NullDeref
  | OutOfBounds
  | BadPointer

type_synonym 'a prog = "world \<Rightarrow> (failure + 'a) \<times> world"

definition ret :: "'a \<Rightarrow> 'a prog" where
  "ret x = (\<lambda>w. (Inr x, w))"

definition abort :: "failure \<Rightarrow> 'a prog" where
  "abort e = (\<lambda>w. (Inl e, w))"

definition andthen :: "'a prog \<Rightarrow> ('a \<Rightarrow> 'b prog) \<Rightarrow> 'b prog" where
  "andthen m f = (\<lambda>w. case m w of (Inl e, w') \<Rightarrow> (Inl e, w') | (Inr x, w') \<Rightarrow> f x w')"

definition engine_call :: "mkldnn_call \<Rightarrow> (mkldnn_call list \<Rightarrow> 'a) \<Rightarrow> 'a prog" where
  "engine_call c f = (\<lambda>w. (Inr (f (calls w)), w\<lparr>calls := calls w @ [c]\<rparr>))"

text \<open>
  Modelled from the spec: the macro \<^verbatim>\<open>MKL_CHECK\<close> of \<^verbatim>\<open>mkldnn_util.h\<close>, which is not among
  the sources: a call that does not return success ends the process at once.
\<close>

definition MKL_CHECK :: "(mkldnn_status \<times> 'a) prog \<Rightarrow> 'a prog" where
  "MKL_CHECK m =
     andthen m (\<lambda>(s, x). if s = mkldnn_success then ret x else abort (Fatal s))"

definition mkldnn_memory_desc_init ::
  "mkldnn_api \<Rightarrow> int \<Rightarrow> int list \<Rightarrow> mkldnn_data_type \<Rightarrow> mkldnn_memory_format
    \<Rightarrow> (mkldnn_status \<times> mkldnn_memory_desc) prog" where
  "mkldnn_memory_desc_init L nd ds dt fmt =
     engine_call (MemoryDescInit nd ds dt fmt) (\<lambda>h. memory_desc_init L h nd ds dt fmt)"

definition mkldnn_pooling_forward_desc_init ::
  "mkldnn_api \<Rightarrow> mkldnn_prop_kind \<Rightarrow> mkldnn_alg_kind \<Rightarrow> mkldnn_memory_desc
    \<Rightarrow> mkldnn_memory_desc \<Rightarrow> int list \<Rightarrow> int list \<Rightarrow> int list \<Rightarrow> int list
    \<Rightarrow> mkldnn_padding_kind \<Rightarrow> (mkldnn_status \<times> mkldnn_pooling_desc) prog" where
  "mkldnn_pooling_forward_desc_init L pk ak src dst st ks pl pr padk =
     engine_call (PoolingForwardDescInit pk ak src dst st ks pl pr padk)
       (\<lambda>h. pooling_forward_desc_init L h pk ak src dst st ks pl pr padk)"

definition mkldnn_pooling_backward_desc_init ::
  "mkldnn_api \<Rightarrow> mkldnn_alg_kind \<Rightarrow> mkldnn_memory_desc \<Rightarrow> mkldnn_memory_desc
    \<Rightarrow> int list \<Rightarrow> int list \<Rightarrow> int list \<Rightarrow> int list \<Rightarrow> mkldnn_padding_kind
    \<Rightarrow> (mkldnn_status \<times> mkldnn_pooling_desc) prog" where
  "mkldnn_pooling_backward_desc_init L ak diff_src diff_dst st ks pl pr padk =
     engine_call (PoolingBackwardDescInit ak diff_src diff_dst st ks pl pr padk)
       (\<lambda>h. pooling_backward_desc_init L h ak diff_src diff_dst st ks pl pr padk)"

definition mkldnn_primitive_desc_create ::
  "mkldnn_api \<Rightarrow> mkldnn_pooling_desc \<Rightarrow> mkldnn_engine \<Rightarrow> mkldnn_primitive_desc option
    \<Rightarrow> (mkldnn_status \<times> mkldnn_primitive_desc option) prog" where
  "mkldnn_primitive_desc_create L d e hint =
     engine_call (PrimitiveDescCreate d e hint) (\<lambda>h. primitive_desc_create L h d e hint)"

definition mkldnn_primitive_desc_query_pd ::
  "mkldnn_api \<Rightarrow> mkldnn_primitive_desc option \<Rightarrow> mkldnn_query \<Rightarrow> int
    \<Rightarrow> (mkldnn_primitive_desc option) prog" where
  "mkldnn_primitive_desc_query_pd L pd q i =
     engine_call (PrimitiveDescQueryPd pd q i) (\<lambda>h. primitive_desc_query_pd L h pd q i)"

definition mkldnn_primitive_desc_query_memory_d ::
  "mkldnn_api \<Rightarrow> mkldnn_primitive_desc option \<Rightarrow> (mkldnn_memory_desc option) prog" where
  "mkldnn_primitive_desc_query_memory_d L pd =
     engine_call (PrimitiveDescQueryMemoryD pd) (\<lambda>h. primitive_desc_query_memory_d L h pd)"

definition mkldnn_primitive_create ::
  "mkldnn_api \<Rightarrow> mkldnn_primitive_desc option \<Rightarrow> mkldnn_primitive_at_t list
    \<Rightarrow> mkldnn_primitive option list \<Rightarrow> (mkldnn_status \<times> mkldnn_primitive option) prog" where
  "mkldnn_primitive_create L pd srcs dsts =
     engine_call (PrimitiveCreate pd srcs dsts) (\<lambda>h. primitive_create L h pd srcs dsts)"

text \<open>
  Modelled from the spec: the tensor helpers \<^verbatim>\<open>create_mkldnn_tensor\<close> and
  \<^verbatim>\<open>create_mkldnn_tensor_from_md\<close> of \<^verbatim>\<open>mkldnn_util\<close>, which are not among the sources. They
  materialise a tensor handle bound to the engine, from extents, element type and layout
  tag, or from extents and a memory descriptor; an engine that declines is fatal as for every
  other step. The handle is returned here; the builders store it into the slot whose address
  the C code passes.
\<close>

definition create_mkldnn_tensor ::
  "mkldnn_api \<Rightarrow> int \<Rightarrow> int list \<Rightarrow> mkldnn_data_type \<Rightarrow> mkldnn_memory_format
    \<Rightarrow> mkldnn_engine \<Rightarrow> mkldnn_tensor prog" where
  "create_mkldnn_tensor L nd ds dt fmt e =
     MKL_CHECK (engine_call (CreateTensor nd ds dt fmt e) (\<lambda>h. tensor_create L h nd ds dt fmt e))"

definition create_mkldnn_tensor_from_md ::
  "mkldnn_api \<Rightarrow> int \<Rightarrow> int list \<Rightarrow> mkldnn_memory_desc \<Rightarrow> mkldnn_engine
    \<Rightarrow> mkldnn_tensor prog" where
  "create_mkldnn_tensor_from_md L nd ds md e =
     MKL_CHECK (engine_call (CreateTensorFromMd nd ds md e)
       (\<lambda>h. tensor_create_from_md L h nd ds md e))"

subsection \<open>Access to an opkernel through its pointer\<close>

text \<open>
  Reading or writing through a pointer that holds no opkernel, reading or writing an array
  outside its capacity, and dereferencing \<^verbatim>\<open>NULL\<close> are undefined in C; the model stops with
  a failure of its own kind for each.
\<close>

definition read_kernel :: "nat \<Rightarrow> mkldnn_opkernel prog" where
  "read_kernel p =
     (\<lambda>w. case heap w p of None \<Rightarrow> (Inl BadPointer, w) | Some k \<Rightarrow> (Inr k, w))"

definition modify_kernel :: "nat \<Rightarrow> (mkldnn_opkernel \<Rightarrow> mkldnn_opkernel) \<Rightarrow> unit prog" where
  "modify_kernel p f =
     (\<lambda>w. case heap w p of
        None \<Rightarrow> (Inl BadPointer, w)
      | Some k \<Rightarrow> (Inr (), w\<lparr>heap := (heap w)(p \<mapsto> f k)\<rparr>))"

definition array_store :: "'a list \<Rightarrow> int \<Rightarrow> 'a \<Rightarrow> 'a list option" where
  "array_store xs i v =
     (if 0 \<le> i \<and> i < int (length xs) then Some (xs[nat i := v]) else None)"

definition array_load :: "'a list \<Rightarrow> int \<Rightarrow> 'a option" where
  "array_load xs i = (if 0 \<le> i \<and> i < int (length xs) then Some (xs ! nat i) else None)"

definition get_field :: "nat \<Rightarrow> (mkldnn_opkernel \<Rightarrow> 'a) \<Rightarrow> 'a prog" where
  "get_field p sel = andthen (read_kernel p) (\<lambda>k. ret (sel k))"

definition set_field ::
  "nat \<Rightarrow> (('a \<Rightarrow> 'a) \<Rightarrow> mkldnn_opkernel \<Rightarrow> mkldnn_opkernel) \<Rightarrow> 'a \<Rightarrow> unit prog" where
  "set_field p upd v = modify_kernel p (upd (\<lambda>_. v))"

definition load_elem :: "nat \<Rightarrow> (mkldnn_opkernel \<Rightarrow> 'a list) \<Rightarrow> int \<Rightarrow> 'a prog" where
  "load_elem p sel i =
     andthen (read_kernel p) (\<lambda>k.
       case array_load (sel k) i of None \<Rightarrow> abort OutOfBounds | Some v \<Rightarrow> ret v)"

definition store_elem ::
  "nat \<Rightarrow> (mkldnn_opkernel \<Rightarrow> 'a list)
    \<Rightarrow> (('a list \<Rightarrow> 'a list) \<Rightarrow> mkldnn_opkernel \<Rightarrow> mkldnn_opkernel)
    \<Rightarrow> int \<Rightarrow> 'a \<Rightarrow> unit prog" where
  "store_elem p sel upd i v =
     andthen (read_kernel p) (\<lambda>k.
       case array_store (sel k) i v of
         None \<Rightarrow> abort OutOfBounds
       | Some xs \<Rightarrow> modify_kernel p (upd (\<lambda>_. xs)))"

definition deref :: "'a option \<Rightarrow> 'a prog" where
  "deref m = (case m of None \<Rightarrow> abort NullDeref | Some x \<Rightarrow> ret x)"

text \<open>
  The last statement of both builders,
  \<^verbatim>\<open>opkernel->net[opkernel->net_size++] = opkernel->op_prim;\<close>
  The slot written is the one at the old value of \<open>net_size\<close>. The increment is the only
  arithmetic the builders do on a C \<^verbatim>\<open>int\<close>; it follows a store inside the capacity of the
  array, so it cannot leave the range of \<^verbatim>\<open>int\<close> and is written on \<open>int\<close> without
  wrap-around.
\<close>

definition net_append :: "nat \<Rightarrow> unit prog" where
  "net_append p =
     andthen (get_field p net_size) (\<lambda>n.
     andthen (get_field p op_prim) (\<lambda>v.
     andthen (store_elem p net net_update n v) (\<lambda>_.
     set_field p net_size_update (n + 1))))"

subsection \<open>The forward builder\<close>

text \<open>
  \<^verbatim>\<open>create_mkldnn_pool_fprop_kernel\<close>, statement by statement. \<open>input_src_md\<close> is the
  pointer to an explicit source descriptor (\<open>None\<close> when the caller passes \<^verbatim>\<open>NULL\<close>),
  \<open>opkernel\<close> the address of the opkernel to fill. The array \<^verbatim>\<open>pool_dsts\<close> has two slots of
  which the second is written for max pooling only; the list passed here is its written part.
\<close>

definition create_mkldnn_pool_fprop_kernel ::
  "mkldnn_api \<Rightarrow> mkldnn_engine \<Rightarrow> int \<Rightarrow> int \<Rightarrow> int list \<Rightarrow> int list \<Rightarrow> int list
    \<Rightarrow> int list \<Rightarrow> int list \<Rightarrow> int \<Rightarrow> mkldnn_memory_desc option \<Rightarrow> mkldnn_data_type
    \<Rightarrow> nat \<Rightarrow> unit prog" where
  "create_mkldnn_pool_fprop_kernel L engine src_dims dst_dims src_sizes kernel_sizes dst_sizes
      strides padding pool_type input_src_md data_type opkernel =
     andthen (case input_src_md of
                Some md \<Rightarrow> ret md
              | None \<Rightarrow> MKL_CHECK (mkldnn_memory_desc_init L src_dims src_sizes data_type
                                     mkldnn_chwn))
       (\<lambda>mkldnn_memory_desc_src_md.
     andthen (MKL_CHECK (mkldnn_memory_desc_init L dst_dims dst_sizes data_type mkldnn_any))
       (\<lambda>mkldnn_memory_desc_dst_md.
     andthen (if pool_type = 0
              then MKL_CHECK (mkldnn_pooling_forward_desc_init L mkldnn_forward_training
                     mkldnn_pooling_max mkldnn_memory_desc_src_md mkldnn_memory_desc_dst_md
                     strides kernel_sizes padding padding mkldnn_padding_zero)
              else MKL_CHECK (mkldnn_pooling_forward_desc_init L mkldnn_forward_training
                     mkldnn_pooling_avg mkldnn_memory_desc_src_md mkldnn_memory_desc_dst_md
                     strides kernel_sizes padding padding mkldnn_padding_zero))
       (\<lambda>pool_any_desc.
     andthen (MKL_CHECK (mkldnn_primitive_desc_create L pool_any_desc engine None))
       (\<lambda>pd.
     andthen (set_field opkernel op_desc_update pd) (\<lambda>_.
     andthen (get_field opkernel op_desc) (\<lambda>d.
     andthen (mkldnn_primitive_desc_query_pd L d mkldnn_query_src_pd 0) (\<lambda>kernel_src_pd.
     andthen (get_field opkernel op_desc) (\<lambda>d.
     andthen (mkldnn_primitive_desc_query_pd L d mkldnn_query_dst_pd 0) (\<lambda>kernel_dst_pd.
     andthen (case input_src_md of
                Some md \<Rightarrow> create_mkldnn_tensor_from_md L src_dims src_sizes md engine
              | None \<Rightarrow> create_mkldnn_tensor L src_dims src_sizes data_type mkldnn_chwn engine)
       (\<lambda>t.
     andthen (store_elem opkernel inputs inputs_update 0 t) (\<lambda>_.
     andthen (mkldnn_primitive_desc_query_memory_d L kernel_dst_pd) (\<lambda>m.
     andthen (deref m) (\<lambda>dst_md.
     andthen (create_mkldnn_tensor_from_md L dst_dims dst_sizes dst_md engine) (\<lambda>t.
     andthen (store_elem opkernel outputs outputs_update 0 t) (\<lambda>_.
     andthen (set_field opkernel num_inputs_update 1) (\<lambda>_.
     andthen (set_field opkernel num_outputs_update 1) (\<lambda>_.
     andthen (store_elem opkernel reorder_i reorder_i_update 0 None) (\<lambda>_.
     andthen (store_elem opkernel reorder_o reorder_o_update 0 None) (\<lambda>_.
     andthen (if pool_type = 0
              then
                andthen (set_field opkernel num_outputs_update 2) (\<lambda>_.
                andthen (get_field opkernel op_desc) (\<lambda>d.
                andthen (mkldnn_primitive_desc_query_pd L d mkldnn_query_workspace_pd 0)
                  (\<lambda>kernel_argmax_pd.
                andthen (mkldnn_primitive_desc_query_memory_d L kernel_argmax_pd) (\<lambda>m.
                andthen (deref m) (\<lambda>md.
                andthen (create_mkldnn_tensor_from_md L dst_dims dst_sizes md engine) (\<lambda>t.
                andthen (store_elem opkernel outputs outputs_update 1 t) (\<lambda>_.
                store_elem opkernel reorder_o reorder_o_update 1 None)))))))
              else ret ())
       (\<lambda>_.
     andthen (load_elem opkernel outputs 0) (\<lambda>o0.
     andthen (if pool_type = 0
              then andthen (load_elem opkernel outputs 1) (\<lambda>o1. ret [prim o0, prim o1])
              else ret [prim o0])
       (\<lambda>pool_dsts.
     andthen (load_elem opkernel inputs 0) (\<lambda>i0.
     andthen (get_field opkernel op_desc) (\<lambda>d.
     andthen (MKL_CHECK (mkldnn_primitive_create L d [mkldnn_primitive_at (prim i0) 0]
                pool_dsts))
       (\<lambda>p.
     andthen (set_field opkernel op_prim_update p) (\<lambda>_.
     net_append opkernel))))))))))))))))))))))))))"

subsection \<open>The backward builder\<close>

text \<open>
  \<^verbatim>\<open>create_mkldnn_pool_bprop_kernel\<close>, statement by statement. \<open>fprop_opkernel\<close> is read once,
  for the hint of the primitive descriptor, before the first write through \<open>opkernel\<close>. The
  library's backward descriptor takes the diff-source descriptor first and the
  diff-destination descriptor second; the builder passes its destination descriptor as the
  former and its source descriptor as the latter. The C code hands the output as a
  one-element \<^verbatim>\<open>mkldnn_primitive_at_t\<close> array where the library reads primitive handles;
  the handle read there is the \<^verbatim>\<open>prim\<close> of the output tensor, which is what is passed here.
\<close>

definition create_mkldnn_pool_bprop_kernel ::
  "mkldnn_api \<Rightarrow> mkldnn_engine \<Rightarrow> int \<Rightarrow> int \<Rightarrow> int list \<Rightarrow> int list \<Rightarrow> int list
    \<Rightarrow> int list \<Rightarrow> int list \<Rightarrow> int \<Rightarrow> mkldnn_memory_desc option \<Rightarrow> mkldnn_data_type
    \<Rightarrow> nat \<Rightarrow> nat \<Rightarrow> unit prog" where
  "create_mkldnn_pool_bprop_kernel L engine src_dims dst_dims src_sizes kernel_sizes dst_sizes
      strides padding pool_type input_src_md data_type fprop_opkernel opkernel =
     andthen (case input_src_md of
                Some md \<Rightarrow> ret md
              | None \<Rightarrow> MKL_CHECK (mkldnn_memory_desc_init L src_dims src_sizes data_type
                                     mkldnn_chwn))
       (\<lambda>mkldnn_memory_desc_src_md.
     andthen (MKL_CHECK (mkldnn_memory_desc_init L dst_dims dst_sizes data_type mkldnn_any))
       (\<lambda>mkldnn_memory_desc_dst_md.
     andthen (if pool_type = 0
              then MKL_CHECK (mkldnn_pooling_backward_desc_init L mkldnn_pooling_max
                     mkldnn_memory_desc_dst_md mkldnn_memory_desc_src_md
                     strides kernel_sizes padding padding mkldnn_padding_zero)
              else MKL_CHECK (mkldnn_pooling_backward_desc_init L mkldnn_pooling_avg
                     mkldnn_memory_desc_dst_md mkldnn_memory_desc_src_md
                     strides kernel_sizes padding padding mkldnn_padding_zero))
       (\<lambda>pool_any_desc.
     andthen (get_field fprop_opkernel op_desc) (\<lambda>hint.
     andthen (MKL_CHECK (mkldnn_primitive_desc_create L pool_any_desc engine hint))
       (\<lambda>pd.
     andthen (set_field opkernel op_desc_update pd) (\<lambda>_.
     andthen (get_field opkernel op_desc) (\<lambda>d.
     andthen (mkldnn_primitive_desc_query_pd L d mkldnn_query_diff_dst_pd 0)
       (\<lambda>kernel_src_pd.
     andthen (get_field opkernel op_desc) (\<lambda>d.
     andthen (mkldnn_primitive_desc_query_pd L d mkldnn_query_diff_src_pd 0)
       (\<lambda>kernel_dst_pd.
     andthen (case input_src_md of
                Some md \<Rightarrow> create_mkldnn_tensor_from_md L src_dims src_sizes md engine
              | None \<Rightarrow> create_mkldnn_tensor L src_dims src_sizes data_type mkldnn_chwn engine)
       (\<lambda>t.
     andthen (store_elem opkernel inputs inputs_update 0 t) (\<lambda>_.
     andthen (mkldnn_primitive_desc_query_memory_d L kernel_dst_pd) (\<lambda>m.
     andthen (deref m) (\<lambda>dst_md.
     andthen (create_mkldnn_tensor_from_md L dst_dims dst_sizes dst_md engine) (\<lambda>t.
     andthen (store_elem opkernel outputs outputs_update 0 t) (\<lambda>_.
     andthen (set_field opkernel num_inputs_update 1) (\<lambda>_.
     andthen (set_field opkernel num_outputs_update 1) (\<lambda>_.
     andthen (store_elem opkernel reorder_i reorder_i_update 0 None) (\<lambda>_.
     andthen (store_elem opkernel reorder_o reorder_o_update 0 None) (\<lambda>_.
     andthen (if pool_type = 0
              then
                andthen (set_field opkernel num_inputs_update 2) (\<lambda>_.
                andthen (get_field opkernel op_desc) (\<lambda>d.
                andthen (mkldnn_primitive_desc_query_pd L d mkldnn_query_workspace_pd 0)
                  (\<lambda>kernel_argmax_pd.
                andthen (mkldnn_primitive_desc_query_memory_d L kernel_argmax_pd) (\<lambda>m.
                andthen (deref m) (\<lambda>md.
                andthen (create_mkldnn_tensor_from_md L src_dims src_sizes md engine) (\<lambda>t.
                andthen (store_elem opkernel inputs inputs_update 1 t) (\<lambda>_.
                store_elem opkernel reorder_i reorder_i_update 1 None)))))))
              else ret ())
       (\<lambda>_.
     andthen (load_elem opkernel inputs 0) (\<lambda>i0.
     andthen (if pool_type = 0
              then andthen (load_elem opkernel inputs 1) (\<lambda>i1.
                     ret [mkldnn_primitive_at (prim i0) 0, mkldnn_primitive_at (prim i1) 0])
              else ret [mkldnn_primitive_at (prim i0) 0])
       (\<lambda>pool_srcs.
     andthen (load_elem opkernel outputs 0) (\<lambda>o0.
     andthen (get_field opkernel op_desc) (\<lambda>d.
     andthen (MKL_CHECK (mkldnn_primitive_create L d pool_srcs [prim o0]))
       (\<lambda>p.
     andthen (set_field opkernel op_prim_update p) (\<lambda>_.
     net_append opkernel)))))))))))))))))))))))))))"

subsection \<open>Observations on a run\<close>

text \<open>The calls a run has added to the log, and the entries in use of an opkernel's net.\<close>

definition new_calls :: "world \<Rightarrow> world \<Rightarrow> mkldnn_call list" where
  "new_calls w w' = drop (length (calls w)) (calls w')"

definition net_of :: "world \<Rightarrow> nat \<Rightarrow> mkldnn_primitive option list" where
  "net_of w p = (case heap w p of None \<Rightarrow> [] | Some k \<Rightarrow> take (nat (net_size k)) (net k))"

subsection \<open>A reference library for running the builders\<close>

text \<open>
  A small executable library, used to run the builders on concrete inputs. A handle is the
  position in the log of the call that made it, so a query can look up what it is asked
  about. Descriptors keep the layout they are given, and the automatic placeholder is resolved
  to the format \<open>pref\<close>, the parameter of the library. The extents must match the rank.
\<close>

definition nth_call :: "mkldnn_call list \<Rightarrow> nat \<Rightarrow> mkldnn_call option" where
  "nth_call h n = (if n < length h then Some (h ! n) else None)"

definition resolve_format :: "mkldnn_memory_format \<Rightarrow> mkldnn_memory_desc \<Rightarrow> mkldnn_memory_desc" where
  "resolve_format pref md = (if md_format md = mkldnn_any then md\<lparr>md_format := pref\<rparr> else md)"

fun role_md :: "mkldnn_call \<Rightarrow> mkldnn_query \<Rightarrow> mkldnn_memory_desc option" where
  "role_md (PoolingForwardDescInit pk ak src dst st ks pl pr padk) q =
     (if q = mkldnn_query_src_pd then Some src
      else if q = mkldnn_query_dst_pd \<or> q = mkldnn_query_workspace_pd then Some dst
      else None)"
| "role_md (PoolingBackwardDescInit ak diff_src diff_dst st ks pl pr padk) q =
     (if q = mkldnn_query_diff_src_pd then Some diff_src
      else if q = mkldnn_query_diff_dst_pd \<or> q = mkldnn_query_workspace_pd then Some diff_dst
      else None)"
| "role_md _ q = None"

definition ref_query_memory_d ::
  "mkldnn_memory_format \<Rightarrow> mkldnn_call list \<Rightarrow> mkldnn_primitive_desc option
    \<Rightarrow> mkldnn_memory_desc option" where
  "ref_query_memory_d pref h pd =
     (case pd of
        None \<Rightarrow> None
      | Some (PrimitiveDesc n) \<Rightarrow>
          (case nth_call h n of
             Some (PrimitiveDescQueryPd (Some (PrimitiveDesc m)) q i) \<Rightarrow>
               (case nth_call h m of
                  Some (PrimitiveDescCreate (PoolingDesc j) e hint) \<Rightarrow>
                    (case nth_call h j of
                       Some c \<Rightarrow> map_option (resolve_format pref) (role_md c q)
                     | None \<Rightarrow> None)
                | _ \<Rightarrow> None)
           | _ \<Rightarrow> None))"

definition ref_api :: "mkldnn_memory_format \<Rightarrow> mkldnn_api" where
  "ref_api pref =
     \<lparr>memory_desc_init = (\<lambda>h nd ds dt fmt.
        (if nd = int (length ds) then mkldnn_success else status_other 3,
         \<lparr>md_ndims = nd, md_dims = ds, md_data_type = dt, md_format = fmt\<rparr>)),
      pooling_forward_desc_init = (\<lambda>h pk ak src dst st ks pl pr padk.
        (mkldnn_success, PoolingDesc (length h))),
      pooling_backward_desc_init = (\<lambda>h ak diff_src diff_dst st ks pl pr padk.
        (mkldnn_success, PoolingDesc (length h))),
      primitive_desc_create = (\<lambda>h d e hint. (mkldnn_success, Some (PrimitiveDesc (length h)))),
      primitive_desc_query_pd = (\<lambda>h pd q i.
        case pd of None \<Rightarrow> None | Some _ \<Rightarrow> Some (PrimitiveDesc (length h))),
      primitive_desc_query_memory_d = ref_query_memory_d pref,
      primitive_create = (\<lambda>h pd srcs dsts. (mkldnn_success, Some (Primitive (length h)))),
      tensor_create = (\<lambda>h nd ds dt fmt e.
        (mkldnn_success, \<lparr>prim = Some (Primitive (length h))\<rparr>)),
      tensor_create_from_md = (\<lambda>h nd ds md e.
        (mkldnn_success, \<lparr>prim = Some (Primitive (length h))\<rparr>))\<rparr>"

text \<open>An opkernel before construction, with arrays of capacity \<open>cap\<close>.\<close>

definition fresh_kernel :: "nat \<Rightarrow> mkldnn_opkernel" where
  "fresh_kernel cap =
     \<lparr>num_inputs = 0, num_outputs = 0,
      inputs = replicate cap \<lparr>prim = None\<rparr>, outputs = replicate cap \<lparr>prim = None\<rparr>,
      reorder_i = replicate cap None, reorder_o = replicate cap None,
      op_desc = None, op_prim = None, net = replicate cap None, net_size = 0\<rparr>"

text \<open>Two fresh opkernels, at the addresses 1 and 2, and an empty log.\<close>

definition two_kernels :: world where
  "two_kernels = \<lparr>heap = [1 \<mapsto> fresh_kernel 3, 2 \<mapsto> fresh_kernel 3], calls = []\<rparr>"

text \<open>
  The scenario of the specification: a rank-4 source of extents 8, 16, 32, 32, a 2 by 2
  window with stride 2 and no padding, destination extents 8, 16, 16, 16, no explicit
  layout. The forward kernel is built at address 1; the backward kernel is built at address
  \<open>b\<close> after it, with the two shapes in the roles the backward builder gives them.
\<close>

abbreviation fwd_example :: "mkldnn_memory_format \<Rightarrow> int \<Rightarrow> unit prog" where
  "fwd_example pref pool_type \<equiv>
     create_mkldnn_pool_fprop_kernel (ref_api pref) (Engine 0) 4 4 [8, 16, 32, 32] [2, 2]
       [8, 16, 16, 16] [2, 2] [0, 0] pool_type None (DataType 1) 1"

abbreviation bwd_example :: "mkldnn_memory_format \<Rightarrow> int \<Rightarrow> nat \<Rightarrow> unit prog" where
  "bwd_example pref pool_type b \<equiv>
     create_mkldnn_pool_bprop_kernel (ref_api pref) (Engine 0) 4 4 [8, 16, 16, 16] [2, 2]
       [8, 16, 32, 32] [2, 2] [0, 0] pool_type None (DataType 1) 1 b"

subsection \<open>Weakest preconditions\<close>

text \<open>
  \<open>wp m Q E w\<close>: started in \<open>w\<close>, the program \<open>m\<close> either returns a value and a state that
  satisfy \<open>Q\<close> or stops with a failure and a state that satisfy \<open>E\<close>. The answer of a library
  call is kept as a variable \<open>r\<close> tied to the call by \<open>answered\<close>, so that later calls mention
  \<open>r\<close> and not the term that computes it.
\<close>

definition wp ::
  "'a prog \<Rightarrow> ('a \<Rightarrow> world \<Rightarrow> bool) \<Rightarrow> (failure \<Rightarrow> world \<Rightarrow> bool) \<Rightarrow> world \<Rightarrow> bool" where
  "wp m Q E = (\<lambda>w. case m w of (Inr x, w') \<Rightarrow> Q x w' | (Inl e, w') \<Rightarrow> E e w')"

definition answered :: "'a \<Rightarrow> 'a \<Rightarrow> bool" where
  "answered r v = (v = r)"

subsection \<open>What the builders pass to the library\<close>

text \<open>
  Readings of a call log: for the calls that create a forward pooling descriptor, the
  propagation kind, the algorithm and the padding policy passed; for all calls that create a
  pooling descriptor, the leading and the trailing padding passed; for the calls that create
  a primitive descriptor, the hint passed.
\<close>

definition alg_of :: "int \<Rightarrow> mkldnn_alg_kind" where
  "alg_of pool_type = (if pool_type = 0 then mkldnn_pooling_max else mkldnn_pooling_avg)"

fun forward_desc_settings ::
  "mkldnn_call list \<Rightarrow> (mkldnn_prop_kind \<times> mkldnn_alg_kind \<times> mkldnn_padding_kind) list" where
  "forward_desc_settings [] = []"
| "forward_desc_settings (PoolingForwardDescInit pk ak src dst st ks pl pr padk # cs) =
     (pk, ak, padk) # forward_desc_settings cs"
| "forward_desc_settings (_ # cs) = forward_desc_settings cs"

fun desc_paddings :: "mkldnn_call list \<Rightarrow> (int list \<times> int list) list" where
  "desc_paddings [] = []"
| "desc_paddings (PoolingForwardDescInit pk ak src dst st ks pl pr padk # cs) =
     (pl, pr) # desc_paddings cs"
| "desc_paddings (PoolingBackwardDescInit ak diff_src diff_dst st ks pl pr padk # cs) =
     (pl, pr) # desc_paddings cs"
| "desc_paddings (_ # cs) = desc_paddings cs"

fun create_hints :: "mkldnn_call list \<Rightarrow> mkldnn_primitive_desc option list" where
  "create_hints [] = []"
| "create_hints (PrimitiveDescCreate d e hint # cs) = hint # create_hints cs"
| "create_hints (_ # cs) = create_hints cs"

subsection \<open>The memory descriptors as the specification describes them\<close>

text \<open>
  The source descriptor in the specification's words: the caller's explicit descriptor when
  there is one, and otherwise the one the library makes from the source rank, the source
  extents and the data type with the default layout \<open>mkldnn_chwn\<close>; \<open>h\<close> is the log at the
  time of the request. The destination descriptor: the one the library makes from the
  destination rank and extents and the data type with the automatic layout \<open>mkldnn_any\<close>.
\<close>

definition spec_source_md ::
  "mkldnn_api \<Rightarrow> mkldnn_call list \<Rightarrow> int \<Rightarrow> int list \<Rightarrow> mkldnn_data_type
    \<Rightarrow> mkldnn_memory_desc option \<Rightarrow> mkldnn_memory_desc" where
  "spec_source_md L h src_dims src_sizes data_type input_src_md =
     (case input_src_md of
        Some md \<Rightarrow> md
      | None \<Rightarrow> snd (memory_desc_init L h src_dims src_sizes data_type mkldnn_chwn))"

definition spec_source_md_calls ::
  "int \<Rightarrow> int list \<Rightarrow> mkldnn_data_type \<Rightarrow> mkldnn_memory_desc option \<Rightarrow> mkldnn_call list" where
  "spec_source_md_calls src_dims src_sizes data_type input_src_md =
     (case input_src_md of
        Some md \<Rightarrow> []
      | None \<Rightarrow> [MemoryDescInit src_dims src_sizes data_type mkldnn_chwn])"

definition spec_destination_md ::
  "mkldnn_api \<Rightarrow> mkldnn_call list \<Rightarrow> int \<Rightarrow> int list \<Rightarrow> mkldnn_data_type
    \<Rightarrow> mkldnn_memory_desc" where
  "spec_destination_md L h dst_dims dst_sizes data_type =
     snd (memory_desc_init L h dst_dims dst_sizes data_type mkldnn_any)"

text \<open>
  The requests for a memory descriptor in a log, and the descriptors passed in the requests
  for a pooling descriptor: the source and the destination descriptor of a forward one, the
  diff-source and the diff-destination descriptor of a backward one.
\<close>

fun memory_desc_requests :: "mkldnn_call list \<Rightarrow> mkldnn_call list" where
  "memory_desc_requests [] = []"
| "memory_desc_requests (MemoryDescInit nd ds dt fmt # cs) =
     MemoryDescInit nd ds dt fmt # memory_desc_requests cs"
| "memory_desc_requests (_ # cs) = memory_desc_requests cs"

fun forward_desc_mds :: "mkldnn_call list \<Rightarrow> (mkldnn_memory_desc \<times> mkldnn_memory_desc) list" where
  "forward_desc_mds [] = []"
| "forward_desc_mds (PoolingForwardDescInit pk ak src dst st ks pl pr padk # cs) =
     (src, dst) # forward_desc_mds cs"
| "forward_desc_mds (_ # cs) = forward_desc_mds cs"

fun backward_desc_mds :: "mkldnn_call list \<Rightarrow> (mkldnn_memory_desc \<times> mkldnn_memory_desc) list" where
  "backward_desc_mds [] = []"
| "backward_desc_mds (PoolingBackwardDescInit ak diff_src diff_dst st ks pl pr padk # cs) =
     (diff_src, diff_dst) # backward_desc_mds cs"
| "backward_desc_mds (_ # cs) = backward_desc_mds cs"

text \<open>
  Two more readings of a call log: the algorithm passed in each request for a pooling
  descriptor, forward or backward, and the queries for the workspace descriptor.
\<close>

fun pooling_algs :: "mkldnn_call list \<Rightarrow> mkldnn_alg_kind list" where
  "pooling_algs [] = []"
| "pooling_algs (PoolingForwardDescInit pk ak src dst st ks pl pr padk # cs) =
     ak # pooling_algs cs"
| "pooling_algs (PoolingBackwardDescInit ak diff_src diff_dst st ks pl pr padk # cs) =
     ak # pooling_algs cs"
| "pooling_algs (_ # cs) = pooling_algs cs"

fun workspace_queries :: "mkldnn_call list \<Rightarrow> mkldnn_call list" where
  "workspace_queries [] = []"
| "workspace_queries (PrimitiveDescQueryPd pd q i # cs) =
     (if q = mkldnn_query_workspace_pd then PrimitiveDescQueryPd pd q i # workspace_queries cs
      else workspace_queries cs)"
| "workspace_queries (_ # cs) = workspace_queries cs"

subsection \<open>Success and failure of the calls in a log\<close>

text \<open>
  The status the library gives to a call made when the log is \<open>h\<close>. The two queries return
  a pointer and no status. \<open>all_succeed L h cs\<close>: the calls \<open>cs\<close>, made one after the other
  from the log \<open>h\<close>, all return success.
\<close>

fun call_status :: "mkldnn_api \<Rightarrow> mkldnn_call list \<Rightarrow> mkldnn_call \<Rightarrow> mkldnn_status" where
  "call_status L h (MemoryDescInit nd ds dt fmt) = fst (memory_desc_init L h nd ds dt fmt)"
| "call_status L h (PoolingForwardDescInit pk ak src dst st ks pl pr padk) =
     fst (pooling_forward_desc_init L h pk ak src dst st ks pl pr padk)"
| "call_status L h (PoolingBackwardDescInit ak diff_src diff_dst st ks pl pr padk) =
     fst (pooling_backward_desc_init L h ak diff_src diff_dst st ks pl pr padk)"
| "call_status L h (PrimitiveDescCreate d e hint) = fst (primitive_desc_create L h d e hint)"
| "call_status L h (PrimitiveDescQueryPd pd q i) = mkldnn_success"
| "call_status L h (PrimitiveDescQueryMemoryD pd) = mkldnn_success"
| "call_status L h (CreateTensor nd ds dt fmt e) = fst (tensor_create L h nd ds dt fmt e)"
| "call_status L h (CreateTensorFromMd nd ds md e) = fst (tensor_create_from_md L h nd ds md e)"
| "call_status L h (PrimitiveCreate pd srcs dsts) = fst (primitive_create L h pd srcs dsts)"

fun all_succeed :: "mkldnn_api \<Rightarrow> mkldnn_call list \<Rightarrow> mkldnn_call list \<Rightarrow> bool" where
  "all_succeed L h [] = True"
| "all_succeed L h (c # cs) =
     (call_status L h c = mkldnn_success \<and> all_succeed L (h @ [c]) cs)"

text \<open>
  The outcome of a run whose new calls are \<open>new\<close>, made from the log \<open>h\<close>: every call but the
  last has succeeded; a run that returns has made successful calls only; a run whose last
  call has not succeeded ends with the fatal failure carrying that call's status, and a
  failure of another kind comes after calls that have all succeeded.
\<close>

definition stops_at_failure ::
  "mkldnn_api \<Rightarrow> mkldnn_call list \<Rightarrow> mkldnn_call list \<Rightarrow> failure + 'a \<Rightarrow> bool" where
  "stops_at_failure L h new r =
     (all_succeed L h (butlast new) \<and>
      (case r of
         Inr x \<Rightarrow> all_succeed L h new
       | Inl e \<Rightarrow>
           (if new \<noteq> [] \<and> call_status L (h @ butlast new) (last new) \<noteq> mkldnn_success
            then e = Fatal (call_status L (h @ butlast new) (last new))
            else e \<in> {NullDeref, OutOfBounds, BadPointer})))"

definition status_ok :: "mkldnn_api \<Rightarrow> 'a prog \<Rightarrow> bool" where
  "status_ok L m =
     (\<forall>w r w'. m w = (r, w') \<longrightarrow>
        (\<exists>new. calls w' = calls w @ new \<and> stops_at_failure L (calls w) new r))"

text \<open>The status of the \<open>i\<close>-th of the calls \<open>new\<close> made from the log \<open>h\<close>.\<close>

definition nth_status :: "mkldnn_api \<Rightarrow> mkldnn_call list \<Rightarrow> mkldnn_call list \<Rightarrow> nat \<Rightarrow> mkldnn_status" where
  "nth_status L h new i = call_status L (h @ take i new) (new ! i)"

text \<open>
  A run of the example that fails: the destination rank 5 does not match the four
  destination extents, and the reference library refuses the second descriptor.
\<close>

abbreviation fwd_failing_example :: "unit prog" where
  "fwd_failing_example \<equiv>
     create_mkldnn_pool_fprop_kernel (ref_api mkldnn_chwn) (Engine 0) 4 5 [8, 16, 32, 32] [2, 2]
       [8, 16, 16, 16] [2, 2] [0, 0] 0 None (DataType 1) 1"

subsection \<open>Calls with their answers\<close>

text \<open>
  What the library answers to a call made when the log is \<open>h\<close>: the value it returns, or
  the value it writes through the pointer it is given. \<open>wiring L h new\<close> lists, for the calls
  \<open>new\<close> made one after the other from the log \<open>h\<close>, the queries, the tensor helper calls
  and the creation of the primitive, each with its answer: the calls by which a builder
  obtains its tensors and hands them to the primitive.
\<close>

datatype mkldnn_answer =
    GotMemoryDesc mkldnn_memory_desc
  | GotPoolingDesc mkldnn_pooling_desc
  | GotPrimitiveDesc "mkldnn_primitive_desc option"
  | GotMemoryDescPtr "mkldnn_memory_desc option"
  | GotTensor mkldnn_tensor
  | GotPrimitive "mkldnn_primitive option"

fun call_answer :: "mkldnn_api \<Rightarrow> mkldnn_call list \<Rightarrow> mkldnn_call \<Rightarrow> mkldnn_answer" where
  "call_answer L h (MemoryDescInit nd ds dt fmt) =
     GotMemoryDesc (snd (memory_desc_init L h nd ds dt fmt))"
| "call_answer L h (PoolingForwardDescInit pk ak src dst st ks pl pr padk) =
     GotPoolingDesc (snd (pooling_forward_desc_init L h pk ak src dst st ks pl pr padk))"
| "call_answer L h (PoolingBackwardDescInit ak diff_src diff_dst st ks pl pr padk) =
     GotPoolingDesc (snd (pooling_backward_desc_init L h ak diff_src diff_dst st ks pl pr padk))"
| "call_answer L h (PrimitiveDescCreate d e hint) =
     GotPrimitiveDesc (snd (primitive_desc_create L h d e hint))"
| "call_answer L h (PrimitiveDescQueryPd pd q i) =
     GotPrimitiveDesc (primitive_desc_query_pd L h pd q i)"
| "call_answer L h (PrimitiveDescQueryMemoryD pd) =
     GotMemoryDescPtr (primitive_desc_query_memory_d L h pd)"
| "call_answer L h (CreateTensor nd ds dt fmt e) =
     GotTensor (snd (tensor_create L h nd ds dt fmt e))"
| "call_answer L h (CreateTensorFromMd nd ds md e) =
     GotTensor (snd (tensor_create_from_md L h nd ds md e))"
| "call_answer L h (PrimitiveCreate pd srcs dsts) =
     GotPrimitive (snd (primitive_create L h pd srcs dsts))"

fun is_wiring :: "mkldnn_call \<Rightarrow> bool" where
  "is_wiring (PrimitiveDescQueryPd pd q i) = True"
| "is_wiring (PrimitiveDescQueryMemoryD pd) = True"
| "is_wiring (CreateTensor nd ds dt fmt e) = True"
| "is_wiring (CreateTensorFromMd nd ds md e) = True"
| "is_wiring (PrimitiveCreate pd srcs dsts) = True"
| "is_wiring _ = False"

fun wiring ::
  "mkldnn_api \<Rightarrow> mkldnn_call list \<Rightarrow> mkldnn_call list \<Rightarrow> (mkldnn_call \<times> mkldnn_answer) list" where
  "wiring L h [] = []"
| "wiring L h (c # cs) =
     (if is_wiring c then [(c, call_answer L h c)] else []) @ wiring L (h @ [c]) cs"

text \<open>
  The call that materialises the first input of either builder: from the explicit
  descriptor when the caller gives one, with the default layout otherwise.
\<close>

definition source_tensor_call ::
  "int \<Rightarrow> int list \<Rightarrow> mkldnn_data_type \<Rightarrow> mkldnn_memory_desc option \<Rightarrow> mkldnn_engine
    \<Rightarrow> mkldnn_call" where
  "source_tensor_call src_dims src_sizes data_type input_src_md engine =
     (case input_src_md of
        Some md \<Rightarrow> CreateTensorFromMd src_dims src_sizes md engine
      | None \<Rightarrow> CreateTensor src_dims src_sizes data_type mkldnn_chwn engine)"

text \<open>The calls of the two tensor helpers in a log.\<close>

fun tensor_calls :: "mkldnn_call list \<Rightarrow> mkldnn_call list" where
  "tensor_calls [] = []"
| "tensor_calls (CreateTensor nd ds dt fmt e # cs) = CreateTensor nd ds dt fmt e # tensor_calls cs"
| "tensor_calls (CreateTensorFromMd nd ds md e # cs) =
     CreateTensorFromMd nd ds md e # tensor_calls cs"
| "tensor_calls (_ # cs) = tensor_calls cs"

section \<open>Properties\<close>

subsection \<open>Rules for weakest preconditions\<close>

lemma wp_run:
  "wp m Q E w \<Longrightarrow> m w = (r, w') \<Longrightarrow> (case r of Inr x \<Rightarrow> Q x w' | Inl e \<Rightarrow> E e w')"
  by (simp add: wp_def split: sum.splits)

lemma wp_returns: "wp m Q E w \<Longrightarrow> m w = (Inr x, w') \<Longrightarrow> Q x w'"
  by (simp add: wp_def)

lemma wp_ret: "wp (ret x) Q E = Q x"
  by (simp add: wp_def ret_def)

lemma wp_abort: "wp (abort e) Q E = E e"
  by (simp add: wp_def abort_def)

lemma wp_andthen: "wp (andthen m f) Q E = wp m (\<lambda>x. wp (f x) Q E) E"
  by (rule ext) (simp add: wp_def andthen_def split: prod.splits sum.splits)

lemma wp_if: "wp (if b then m else n) Q E = (if b then wp m Q E else wp n Q E)"
  by simp

lemma wp_case_option:
  "wp (case x of None \<Rightarrow> m | Some y \<Rightarrow> n y) Q E =
     (case x of None \<Rightarrow> wp m Q E | Some y \<Rightarrow> wp (n y) Q E)"
  by (simp split: option.splits)

lemma wp_engine_call:
  "wp (engine_call c f) Q E =
     (\<lambda>w. \<forall>r. answered r (f (calls w)) \<longrightarrow> Q r (w\<lparr>calls := calls w @ [c]\<rparr>))"
  by (simp add: wp_def engine_call_def answered_def)

lemma wp_MKL_CHECK:
  "wp (MKL_CHECK m) Q E =
     wp m (\<lambda>r w'. (fst r = mkldnn_success \<longrightarrow> Q (snd r) w') \<and>
                  (fst r \<noteq> mkldnn_success \<longrightarrow> E (Fatal (fst r)) w')) E"
  by (rule ext)
     (auto simp add: MKL_CHECK_def wp_def andthen_def ret_def abort_def
           split: prod.splits sum.splits)

lemma wp_read_kernel:
  "wp (read_kernel p) Q E =
     (\<lambda>w. (heap w p = None \<longrightarrow> E BadPointer w) \<and> (\<forall>k. heap w p = Some k \<longrightarrow> Q k w))"
  by (rule ext) (simp add: wp_def read_kernel_def split: option.splits)

lemma wp_modify_kernel:
  "wp (modify_kernel p f) Q E =
     (\<lambda>w. (heap w p = None \<longrightarrow> E BadPointer w) \<and>
          (\<forall>k. heap w p = Some k \<longrightarrow> Q () (w\<lparr>heap := (heap w)(p \<mapsto> f k)\<rparr>)))"
  by (rule ext) (simp add: wp_def modify_kernel_def split: option.splits)

lemma wp_deref:
  "wp (deref m) Q E = (\<lambda>w. (m = None \<longrightarrow> E NullDeref w) \<and> (\<forall>x. m = Some x \<longrightarrow> Q x w))"
  by (rule ext) (simp add: deref_def wp_ret wp_abort split: option.splits)

lemma wp_get_field:
  "wp (get_field p sel) Q E =
     (\<lambda>w. (heap w p = None \<longrightarrow> E BadPointer w) \<and> (\<forall>k. heap w p = Some k \<longrightarrow> Q (sel k) w))"
  by (simp add: get_field_def wp_andthen wp_read_kernel wp_ret)

lemma wp_set_field:
  "wp (set_field p upd v) Q E =
     (\<lambda>w. (heap w p = None \<longrightarrow> E BadPointer w) \<and>
          (\<forall>k. heap w p = Some k \<longrightarrow> Q () (w\<lparr>heap := (heap w)(p \<mapsto> upd (\<lambda>_. v) k)\<rparr>)))"
  by (simp add: set_field_def wp_modify_kernel)

lemma wp_load_elem:
  "wp (load_elem p sel i) Q E =
     (\<lambda>w. (heap w p = None \<longrightarrow> E BadPointer w) \<and>
          (\<forall>k. heap w p = Some k \<longrightarrow>
             (0 \<le> i \<and> i < int (length (sel k)) \<longrightarrow> Q (sel k ! nat i) w) \<and>
             (\<not> (0 \<le> i \<and> i < int (length (sel k))) \<longrightarrow> E OutOfBounds w)))"
  by (rule ext)
     (auto simp add: load_elem_def wp_andthen wp_read_kernel wp_ret wp_abort array_load_def)

lemma wp_store_elem:
  "wp (store_elem p sel upd i v) Q E =
     (\<lambda>w. (heap w p = None \<longrightarrow> E BadPointer w) \<and>
          (\<forall>k. heap w p = Some k \<longrightarrow>
             (0 \<le> i \<and> i < int (length (sel k)) \<longrightarrow>
                Q () (w\<lparr>heap := (heap w)(p \<mapsto> upd (\<lambda>_. (sel k)[nat i := v]) k)\<rparr>)) \<and>
             (\<not> (0 \<le> i \<and> i < int (length (sel k))) \<longrightarrow> E OutOfBounds w)))"
  by (rule ext)
     (auto simp add: store_elem_def wp_andthen wp_read_kernel wp_modify_kernel wp_ret wp_abort
           array_store_def)

lemmas wp_rules =
  wp_ret wp_abort wp_andthen wp_if wp_case_option wp_engine_call wp_MKL_CHECK wp_deref
  wp_get_field wp_set_field wp_load_elem wp_store_elem

lemmas call_defs =
  mkldnn_memory_desc_init_def mkldnn_pooling_forward_desc_init_def
  mkldnn_pooling_backward_desc_init_def mkldnn_primitive_desc_create_def
  mkldnn_primitive_desc_query_pd_def mkldnn_primitive_desc_query_memory_d_def
  mkldnn_primitive_create_def create_mkldnn_tensor_def create_mkldnn_tensor_from_md_def
  net_append_def

subsection \<open>Runs of the example\<close>

lemmas run_defs =
  call_defs get_field_def set_field_def load_elem_def store_elem_def array_store_def
  array_load_def read_kernel_def modify_kernel_def deref_def MKL_CHECK_def engine_call_def
  andthen_def ret_def abort_def ref_api_def two_kernels_def fresh_kernel_def
  ref_query_memory_d_def nth_call_def resolve_format_def mkldnn_primitive_at_def nth_append
  create_mkldnn_pool_fprop_kernel_def
  create_mkldnn_pool_bprop_kernel_def

lemma fwd_example_max_returns: "fst (fwd_example pref 0 two_kernels) = Inr ()"
  by (simp add: run_defs)

lemma fwd_example_avg_returns: "fst (fwd_example pref 1 two_kernels) = Inr ()"
  by (simp add: run_defs)

lemma bwd_example_max_returns:
  "fst (bwd_example pref 0 2 (snd (fwd_example pref 0 two_kernels))) = Inr ()"
  by (simp add: run_defs)

lemma bwd_example_avg_returns:
  "fst (bwd_example pref 1 2 (snd (fwd_example pref 1 two_kernels))) = Inr ()"
  by (simp add: run_defs)

lemma run_pair: "fst (m w) = r \<Longrightarrow> m w = (r, snd (m w))"
  by (metis prod.collapse)

subsection \<open>The log of a run\<close>

lemma new_calls_simps:
  "new_calls w (w'\<lparr>calls := xs\<rparr>) = drop (length (calls w)) xs"
  "new_calls w (w'\<lparr>heap := h\<rparr>) = new_calls w w'"
  "new_calls w w = []"
  by (simp_all add: new_calls_def)

subsection \<open>Inputs and outputs of a kernel\<close>

lemma answered_query_pd:
  "answered (r :: mkldnn_primitive_desc option) v = (v = r)"
  by (simp add: answered_def)

lemma answered_query_memory_d:
  "answered (r :: mkldnn_memory_desc option) v = (v = r)"
  by (simp add: answered_def)

lemma answered_tensor:
  "answered (r :: mkldnn_status \<times> mkldnn_tensor) v = (v = r)"
  by (simp add: answered_def)

lemma answered_primitive:
  "answered (r :: mkldnn_status \<times> mkldnn_primitive option) v = (v = r)"
  by (simp add: answered_def)

lemma take_two_updated:
  "Suc 0 < length xs \<Longrightarrow> take 2 (xs[0 := a, Suc 0 := b]) = [a, b]"
  by (cases xs; cases "tl xs") (auto simp add: numeral_2_eq_2)

lemma take_one_updated: "xs \<noteq> [] \<Longrightarrow> take (Suc 0) (xs[0 := a]) = [a]"
  by (cases xs) auto

lemma one_le_length: "(Suc 0 \<le> length xs) = (xs \<noteq> [])"
  by (cases xs) auto

lemma two_le_length: "(2 \<le> length xs) = (Suc 0 < length xs)"
  by auto

lemmas wiring_simps =
  answered_query_pd answered_query_memory_d answered_tensor answered_primitive
  take_two_updated take_one_updated one_le_length two_le_length

lemma fprop_wiring_wp:
  "wp (create_mkldnn_pool_fprop_kernel L engine src_dims dst_dims src_sizes kernel_sizes
         dst_sizes strides padding pool_type input_src_md data_type opkernel)
     (\<lambda>_ w'. \<exists>k ksrc kdst dst_md kws ws_md.
        heap w' opkernel = Some k \<and> num_inputs k = 1 \<and>
        num_outputs k = (if pool_type = 0 then 2 else 1) \<and>
        1 \<le> length (inputs k) \<and> nat (num_outputs k) \<le> length (outputs k) \<and>
        wiring L (calls w) (new_calls w w') =
          [(PrimitiveDescQueryPd (op_desc k) mkldnn_query_src_pd 0, GotPrimitiveDesc ksrc),
           (PrimitiveDescQueryPd (op_desc k) mkldnn_query_dst_pd 0, GotPrimitiveDesc kdst),
           (source_tensor_call src_dims src_sizes data_type input_src_md engine,
            GotTensor (inputs k ! 0)),
           (PrimitiveDescQueryMemoryD kdst, GotMemoryDescPtr (Some dst_md)),
           (CreateTensorFromMd dst_dims dst_sizes dst_md engine, GotTensor (outputs k ! 0))] @
          (if pool_type = 0
           then [(PrimitiveDescQueryPd (op_desc k) mkldnn_query_workspace_pd 0,
                  GotPrimitiveDesc kws),
                 (PrimitiveDescQueryMemoryD kws, GotMemoryDescPtr (Some ws_md)),
                 (CreateTensorFromMd dst_dims dst_sizes ws_md engine, GotTensor (outputs k ! 1))]
           else []) @
          [(PrimitiveCreate (op_desc k) [mkldnn_primitive_at (prim (inputs k ! 0)) 0]
              (map prim (take (nat (num_outputs k)) (outputs k))),
            GotPrimitive (op_prim k))])
     (\<lambda>_ _. True) w"
  unfolding create_mkldnn_pool_fprop_kernel_def
  by (simp add: call_defs wp_rules new_calls_simps wiring_simps source_tensor_call_def
        split: option.splits)

lemma bprop_wiring_wp:
  "wp (create_mkldnn_pool_bprop_kernel L engine src_dims dst_dims src_sizes kernel_sizes
         dst_sizes strides padding pool_type input_src_md data_type fprop_opkernel opkernel)
     (\<lambda>_ w'. \<exists>k ksrc kdst dst_md kws ws_md.
        heap w' opkernel = Some k \<and> num_outputs k = 1 \<and>
        num_inputs k = (if pool_type = 0 then 2 else 1) \<and>
        nat (num_inputs k) \<le> length (inputs k) \<and> 1 \<le> length (outputs k) \<and>
        wiring L (calls w) (new_calls w w') =
          [(PrimitiveDescQueryPd (op_desc k) mkldnn_query_diff_dst_pd 0, GotPrimitiveDesc ksrc),
           (PrimitiveDescQueryPd (op_desc k) mkldnn_query_diff_src_pd 0, GotPrimitiveDesc kdst),
           (source_tensor_call src_dims src_sizes data_type input_src_md engine,
            GotTensor (inputs k ! 0)),
           (PrimitiveDescQueryMemoryD kdst, GotMemoryDescPtr (Some dst_md)),
           (CreateTensorFromMd dst_dims dst_sizes dst_md engine, GotTensor (outputs k ! 0))] @
          (if pool_type = 0
           then [(PrimitiveDescQueryPd (op_desc k) mkldnn_query_workspace_pd 0,
                  GotPrimitiveDesc kws),
                 (PrimitiveDescQueryMemoryD kws, GotMemoryDescPtr (Some ws_md)),
                 (CreateTensorFromMd src_dims src_sizes ws_md engine, GotTensor (inputs k ! 1))]
           else []) @
          [(PrimitiveCreate (op_desc k)
              (map (\<lambda>t. mkldnn_primitive_at (prim t) 0) (take (nat (num_inputs k)) (inputs k)))
              [prim (outputs k ! 0)],
            GotPrimitive (op_prim k))])
     (\<lambda>_ _. True) w"
  unfolding create_mkldnn_pool_bprop_kernel_def
  by (simp add: call_defs wp_rules new_calls_simps wiring_simps source_tensor_call_def
        split: option.splits)

text \<open>
  C1. A forward kernel that has been built has exactly one input and, for max pooling
  (\<open>pool_type = 0\<close>), exactly two outputs, otherwise (average pooling, \<open>pool_type = 1\<close>)
  exactly one. The input is the source tensor. The first output is the destination tensor:
  the tensor materialised, over the destination extents, from the descriptor the library
  returns for the destination role of the kernel's primitive descriptor. The second output
  of max pooling is the auxiliary index tensor: the tensor materialised from the descriptor
  the library returns for the workspace role. The primitive is created from the handle of
  the input and the handles of exactly these outputs, and no other tensor is made.
\<close>

theorem fprop_input_output_tensors:
  assumes "create_mkldnn_pool_fprop_kernel L engine src_dims dst_dims src_sizes kernel_sizes
             dst_sizes strides padding pool_type input_src_md data_type opkernel w = (Inr u, w')"
  shows "\<exists>k ksrc kdst dst_md kws ws_md.
        heap w' opkernel = Some k \<and> num_inputs k = 1 \<and>
        num_outputs k = (if pool_type = 0 then 2 else 1) \<and>
        1 \<le> length (inputs k) \<and> nat (num_outputs k) \<le> length (outputs k) \<and>
        wiring L (calls w) (new_calls w w') =
          [(PrimitiveDescQueryPd (op_desc k) mkldnn_query_src_pd 0, GotPrimitiveDesc ksrc),
           (PrimitiveDescQueryPd (op_desc k) mkldnn_query_dst_pd 0, GotPrimitiveDesc kdst),
           (source_tensor_call src_dims src_sizes data_type input_src_md engine,
            GotTensor (inputs k ! 0)),
           (PrimitiveDescQueryMemoryD kdst, GotMemoryDescPtr (Some dst_md)),
           (CreateTensorFromMd dst_dims dst_sizes dst_md engine, GotTensor (outputs k ! 0))] @
          (if pool_type = 0
           then [(PrimitiveDescQueryPd (op_desc k) mkldnn_query_workspace_pd 0,
                  GotPrimitiveDesc kws),
                 (PrimitiveDescQueryMemoryD kws, GotMemoryDescPtr (Some ws_md)),
                 (CreateTensorFromMd dst_dims dst_sizes ws_md engine, GotTensor (outputs k ! 1))]
           else []) @
          [(PrimitiveCreate (op_desc k) [mkldnn_primitive_at (prim (inputs k ! 0)) 0]
              (map prim (take (nat (num_outputs k)) (outputs k))),
            GotPrimitive (op_prim k))]"
  using wp_returns [OF fprop_wiring_wp assms] .

theorem fprop_input_output_tensors_witness:
  "\<exists>w1 w2 k1 k2.
     fwd_example mkldnn_chwn 0 two_kernels = (Inr (), w1) \<and>
     fwd_example mkldnn_chwn 1 two_kernels = (Inr (), w2) \<and>
     heap w1 1 = Some k1 \<and> num_inputs k1 = 1 \<and> num_outputs k1 = 2 \<and>
     last (wiring (ref_api mkldnn_chwn) (calls two_kernels) (new_calls two_kernels w1)) =
       (PrimitiveCreate (op_desc k1) [mkldnn_primitive_at (prim (inputs k1 ! 0)) 0]
          [prim (outputs k1 ! 0), prim (outputs k1 ! 1)],
        GotPrimitive (op_prim k1)) \<and>
     heap w2 1 = Some k2 \<and> num_inputs k2 = 1 \<and> num_outputs k2 = 1 \<and>
     last (wiring (ref_api mkldnn_chwn) (calls two_kernels) (new_calls two_kernels w2)) =
       (PrimitiveCreate (op_desc k2) [mkldnn_primitive_at (prim (inputs k2 ! 0)) 0]
          [prim (outputs k2 ! 0)],
        GotPrimitive (op_prim k2))"
proof -
  have max_run: "fwd_example mkldnn_chwn 0 two_kernels =
      (Inr (), snd (fwd_example mkldnn_chwn 0 two_kernels))"
    by (rule run_pair) (rule fwd_example_max_returns)
  have avg_run: "fwd_example mkldnn_chwn 1 two_kernels =
      (Inr (), snd (fwd_example mkldnn_chwn 1 two_kernels))"
    by (rule run_pair) (rule fwd_example_avg_returns)
  from fprop_input_output_tensors [OF max_run] obtain k1 where
    k1: "heap (snd (fwd_example mkldnn_chwn 0 two_kernels)) 1 = Some k1"
      "num_inputs k1 = 1" "num_outputs k1 = 2" "2 \<le> length (outputs k1)"
      "last (wiring (ref_api mkldnn_chwn) (calls two_kernels)
         (new_calls two_kernels (snd (fwd_example mkldnn_chwn 0 two_kernels)))) =
       (PrimitiveCreate (op_desc k1) [mkldnn_primitive_at (prim (inputs k1 ! 0)) 0]
          (map prim (take 2 (outputs k1))), GotPrimitive (op_prim k1))"
    by auto
  from fprop_input_output_tensors [OF avg_run] obtain k2 where
    k2: "heap (snd (fwd_example mkldnn_chwn 1 two_kernels)) 1 = Some k2"
      "num_inputs k2 = 1" "num_outputs k2 = 1" "1 \<le> length (outputs k2)"
      "last (wiring (ref_api mkldnn_chwn) (calls two_kernels)
         (new_calls two_kernels (snd (fwd_example mkldnn_chwn 1 two_kernels)))) =
       (PrimitiveCreate (op_desc k2) [mkldnn_primitive_at (prim (inputs k2 ! 0)) 0]
          (map prim (take 1 (outputs k2))), GotPrimitive (op_prim k2))"
    by auto
  from k1(4) have "take 2 (outputs k1) = [outputs k1 ! 0, outputs k1 ! 1]"
    by (cases "outputs k1"; cases "tl (outputs k1)") (auto simp add: numeral_2_eq_2)
  moreover from k2(4) have "take 1 (outputs k2) = [outputs k2 ! 0]"
    by (cases "outputs k2") auto
  ultimately show ?thesis
    using max_run avg_run k1 k2 by (intro exI conjI) simp_all
qed

text \<open>
  C2. A backward kernel that has been built has exactly one output and, for max pooling
  (\<open>pool_type = 0\<close>), exactly two inputs, otherwise (average pooling, \<open>pool_type = 1\<close>)
  exactly one. The first input is the incoming-gradient tensor, materialised over the
  builder's source extents. The second input of max pooling is the auxiliary index tensor:
  the tensor materialised from the descriptor the library returns for the workspace role of
  the kernel's primitive descriptor. The output is the outgoing-gradient tensor, materialised
  over the destination extents from the descriptor the library returns for the diff-source
  role. The primitive is created from the handles of exactly these inputs and the handle of
  the output, and no other tensor is made.
\<close>

theorem bprop_input_output_tensors:
  assumes "create_mkldnn_pool_bprop_kernel L engine src_dims dst_dims src_sizes kernel_sizes
             dst_sizes strides padding pool_type input_src_md data_type fprop_opkernel opkernel w
           = (Inr u, w')"
  shows "\<exists>k ksrc kdst dst_md kws ws_md.
        heap w' opkernel = Some k \<and> num_outputs k = 1 \<and>
        num_inputs k = (if pool_type = 0 then 2 else 1) \<and>
        nat (num_inputs k) \<le> length (inputs k) \<and> 1 \<le> length (outputs k) \<and>
        wiring L (calls w) (new_calls w w') =
          [(PrimitiveDescQueryPd (op_desc k) mkldnn_query_diff_dst_pd 0, GotPrimitiveDesc ksrc),
           (PrimitiveDescQueryPd (op_desc k) mkldnn_query_diff_src_pd 0, GotPrimitiveDesc kdst),
           (source_tensor_call src_dims src_sizes data_type input_src_md engine,
            GotTensor (inputs k ! 0)),
           (PrimitiveDescQueryMemoryD kdst, GotMemoryDescPtr (Some dst_md)),
           (CreateTensorFromMd dst_dims dst_sizes dst_md engine, GotTensor (outputs k ! 0))] @
          (if pool_type = 0
           then [(PrimitiveDescQueryPd (op_desc k) mkldnn_query_workspace_pd 0,
                  GotPrimitiveDesc kws),
                 (PrimitiveDescQueryMemoryD kws, GotMemoryDescPtr (Some ws_md)),
                 (CreateTensorFromMd src_dims src_sizes ws_md engine, GotTensor (inputs k ! 1))]
           else []) @
          [(PrimitiveCreate (op_desc k)
              (map (\<lambda>t. mkldnn_primitive_at (prim t) 0) (take (nat (num_inputs k)) (inputs k)))
              [prim (outputs k ! 0)],
            GotPrimitive (op_prim k))]"
  using wp_returns [OF bprop_wiring_wp assms] .

theorem bprop_input_output_tensors_witness:
  "\<exists>w1 w2 k1 k2.
     bwd_example mkldnn_chwn 0 2 (snd (fwd_example mkldnn_chwn 0 two_kernels)) = (Inr (), w1) \<and>
     bwd_example mkldnn_chwn 1 2 (snd (fwd_example mkldnn_chwn 1 two_kernels)) = (Inr (), w2) \<and>
     heap w1 2 = Some k1 \<and> num_inputs k1 = 2 \<and> num_outputs k1 = 1 \<and>
     last (wiring (ref_api mkldnn_chwn) (calls (snd (fwd_example mkldnn_chwn 0 two_kernels)))
         (new_calls (snd (fwd_example mkldnn_chwn 0 two_kernels)) w1)) =
       (PrimitiveCreate (op_desc k1)
          [mkldnn_primitive_at (prim (inputs k1 ! 0)) 0, mkldnn_primitive_at (prim (inputs k1 ! 1)) 0]
          [prim (outputs k1 ! 0)],
        GotPrimitive (op_prim k1)) \<and>
     heap w2 2 = Some k2 \<and> num_inputs k2 = 1 \<and> num_outputs k2 = 1 \<and>
     last (wiring (ref_api mkldnn_chwn) (calls (snd (fwd_example mkldnn_chwn 1 two_kernels)))
         (new_calls (snd (fwd_example mkldnn_chwn 1 two_kernels)) w2)) =
       (PrimitiveCreate (op_desc k2) [mkldnn_primitive_at (prim (inputs k2 ! 0)) 0]
          [prim (outputs k2 ! 0)],
        GotPrimitive (op_prim k2))"
proof -
  let ?v0 = "snd (fwd_example mkldnn_chwn 0 two_kernels)"
  let ?v1 = "snd (fwd_example mkldnn_chwn 1 two_kernels)"
  have max_run: "bwd_example mkldnn_chwn 0 2 ?v0 = (Inr (), snd (bwd_example mkldnn_chwn 0 2 ?v0))"
    by (rule run_pair) (rule bwd_example_max_returns)
  have avg_run: "bwd_example mkldnn_chwn 1 2 ?v1 = (Inr (), snd (bwd_example mkldnn_chwn 1 2 ?v1))"
    by (rule run_pair) (rule bwd_example_avg_returns)
  from bprop_input_output_tensors [OF max_run] obtain k1 where
    k1: "heap (snd (bwd_example mkldnn_chwn 0 2 ?v0)) 2 = Some k1"
      "num_inputs k1 = 2" "num_outputs k1 = 1" "2 \<le> length (inputs k1)"
      "last (wiring (ref_api mkldnn_chwn) (calls ?v0)
         (new_calls ?v0 (snd (bwd_example mkldnn_chwn 0 2 ?v0)))) =
       (PrimitiveCreate (op_desc k1)
          (map (\<lambda>t. mkldnn_primitive_at (prim t) 0) (take 2 (inputs k1)))
          [prim (outputs k1 ! 0)], GotPrimitive (op_prim k1))"
    by auto
  from bprop_input_output_tensors [OF avg_run] obtain k2 where
    k2: "heap (snd (bwd_example mkldnn_chwn 1 2 ?v1)) 2 = Some k2"
      "num_inputs k2 = 1" "num_outputs k2 = 1" "1 \<le> length (inputs k2)"
      "last (wiring (ref_api mkldnn_chwn) (calls ?v1)
         (new_calls ?v1 (snd (bwd_example mkldnn_chwn 1 2 ?v1)))) =
       (PrimitiveCreate (op_desc k2)
          (map (\<lambda>t. mkldnn_primitive_at (prim t) 0) (take 1 (inputs k2)))
          [prim (outputs k2 ! 0)], GotPrimitive (op_prim k2))"
    by auto
  from k1(4) have "take 2 (inputs k1) = [inputs k1 ! 0, inputs k1 ! 1]"
    by (cases "inputs k1"; cases "tl (inputs k1)") (auto simp add: numeral_2_eq_2)
  moreover from k2(4) have "take 1 (inputs k2) = [inputs k2 ! 0]"
    by (cases "inputs k2") auto
  ultimately show ?thesis
    using max_run avg_run k1 k2 by (intro exI conjI) simp_all
qed

subsection \<open>Settings of the forward pooling descriptor\<close>

lemma fprop_settings_wp:
  "wp (create_mkldnn_pool_fprop_kernel L engine src_dims dst_dims src_sizes kernel_sizes
         dst_sizes strides padding pool_type input_src_md data_type opkernel)
     (\<lambda>_ w'. forward_desc_settings (new_calls w w') =
        [(mkldnn_forward_training, alg_of pool_type, mkldnn_padding_zero)])
     (\<lambda>_ w'. set (forward_desc_settings (new_calls w w')) \<subseteq>
        {(mkldnn_forward_training, alg_of pool_type, mkldnn_padding_zero)}) w"
  unfolding create_mkldnn_pool_fprop_kernel_def
  by (simp add: call_defs wp_rules new_calls_simps alg_of_def split: option.splits)

text \<open>
  C7. In every run of the forward builder, whatever the pooling type, a forward pooling
  descriptor is requested from the library for training-mode forward propagation
  (\<open>mkldnn_forward_training\<close>) and with the zero-padding policy (\<open>mkldnn_padding_zero\<close>),
  and with no other setting; a run that returns has made exactly one such request.
\<close>

theorem fprop_desc_training_zero_padding:
  assumes "create_mkldnn_pool_fprop_kernel L engine src_dims dst_dims src_sizes kernel_sizes
             dst_sizes strides padding pool_type input_src_md data_type opkernel w = (r, w')"
  shows "set (forward_desc_settings (new_calls w w')) \<subseteq>
           {(mkldnn_forward_training, alg_of pool_type, mkldnn_padding_zero)} \<and>
         (r = Inr () \<longrightarrow> forward_desc_settings (new_calls w w') =
           [(mkldnn_forward_training, alg_of pool_type, mkldnn_padding_zero)])"
  using wp_run [OF fprop_settings_wp assms] by (cases r) auto

theorem fprop_desc_training_zero_padding_witness:
  "forward_desc_settings (new_calls two_kernels (snd (fwd_example mkldnn_chwn 0 two_kernels))) =
     [(mkldnn_forward_training, mkldnn_pooling_max, mkldnn_padding_zero)] \<and>
   forward_desc_settings (new_calls two_kernels (snd (fwd_example mkldnn_chwn 1 two_kernels))) =
     [(mkldnn_forward_training, mkldnn_pooling_avg, mkldnn_padding_zero)]"
proof -
  have max_run: "fwd_example mkldnn_chwn 0 two_kernels =
      (Inr (), snd (fwd_example mkldnn_chwn 0 two_kernels))"
    by (rule run_pair) (rule fwd_example_max_returns)
  have avg_run: "fwd_example mkldnn_chwn 1 two_kernels =
      (Inr (), snd (fwd_example mkldnn_chwn 1 two_kernels))"
    by (rule run_pair) (rule fwd_example_avg_returns)
  from fprop_desc_training_zero_padding [OF max_run]
       fprop_desc_training_zero_padding [OF avg_run]
  show ?thesis
    by (simp add: alg_of_def)
qed

subsection \<open>Padding\<close>

lemma fprop_paddings_wp:
  "wp (create_mkldnn_pool_fprop_kernel L engine src_dims dst_dims src_sizes kernel_sizes
         dst_sizes strides padding pool_type input_src_md data_type opkernel)
     (\<lambda>_ w'. desc_paddings (new_calls w w') = [(padding, padding)])
     (\<lambda>_ w'. set (desc_paddings (new_calls w w')) \<subseteq> {(padding, padding)}) w"
  unfolding create_mkldnn_pool_fprop_kernel_def
  by (simp add: call_defs wp_rules new_calls_simps split: option.splits)

lemma bprop_paddings_wp:
  "wp (create_mkldnn_pool_bprop_kernel L engine src_dims dst_dims src_sizes kernel_sizes
         dst_sizes strides padding pool_type input_src_md data_type fprop_opkernel opkernel)
     (\<lambda>_ w'. desc_paddings (new_calls w w') = [(padding, padding)])
     (\<lambda>_ w'. set (desc_paddings (new_calls w w')) \<subseteq> {(padding, padding)}) w"
  unfolding create_mkldnn_pool_bprop_kernel_def
  by (simp add: call_defs wp_rules new_calls_simps split: option.splits)

text \<open>
  C10. In every run of either builder, each request for a pooling descriptor passes the
  caller's one padding array both as the leading and as the trailing padding, so the two
  are equal on every axis; a run that returns has made exactly one such request.
\<close>

theorem padding_symmetric:
  assumes "m = create_mkldnn_pool_fprop_kernel L engine src_dims dst_dims src_sizes kernel_sizes
             dst_sizes strides padding pool_type input_src_md data_type opkernel \<or>
           m = create_mkldnn_pool_bprop_kernel L engine src_dims dst_dims src_sizes kernel_sizes
             dst_sizes strides padding pool_type input_src_md data_type fprop_opkernel opkernel"
    and "m w = (r, w')"
  shows "set (desc_paddings (new_calls w w')) \<subseteq> {(padding, padding)} \<and>
         (r = Inr () \<longrightarrow> desc_paddings (new_calls w w') = [(padding, padding)])"
proof -
  have "wp m (\<lambda>_ w'. desc_paddings (new_calls w w') = [(padding, padding)])
     (\<lambda>_ w'. set (desc_paddings (new_calls w w')) \<subseteq> {(padding, padding)}) w"
    using assms(1) fprop_paddings_wp bprop_paddings_wp by metis
  from wp_run [OF this assms(2)] show ?thesis
    by (cases r) auto
qed

theorem padding_symmetric_witness:
  "desc_paddings (new_calls two_kernels (snd (fwd_example mkldnn_chwn 0 two_kernels))) =
     [([0, 0], [0, 0])] \<and>
   desc_paddings (new_calls (snd (fwd_example mkldnn_chwn 0 two_kernels))
     (snd (bwd_example mkldnn_chwn 0 2 (snd (fwd_example mkldnn_chwn 0 two_kernels))))) =
     [([0, 0], [0, 0])]"
proof -
  have fwd_run: "fwd_example mkldnn_chwn 0 two_kernels =
      (Inr (), snd (fwd_example mkldnn_chwn 0 two_kernels))"
    by (rule run_pair) (rule fwd_example_max_returns)
  have bwd_run: "bwd_example mkldnn_chwn 0 2 (snd (fwd_example mkldnn_chwn 0 two_kernels)) =
      (Inr (), snd (bwd_example mkldnn_chwn 0 2 (snd (fwd_example mkldnn_chwn 0 two_kernels))))"
    by (rule run_pair) (rule bwd_example_max_returns)
  from padding_symmetric [OF disjI1 [OF refl] fwd_run]
       padding_symmetric [OF disjI2 [OF refl] bwd_run]
  show ?thesis by simp
qed

subsection \<open>The hint of the primitive descriptor\<close>

lemma fprop_hints_wp:
  "wp (create_mkldnn_pool_fprop_kernel L engine src_dims dst_dims src_sizes kernel_sizes
         dst_sizes strides padding pool_type input_src_md data_type opkernel)
     (\<lambda>_ w'. create_hints (new_calls w w') = [None])
     (\<lambda>_ w'. set (create_hints (new_calls w w')) \<subseteq> {None}) w"
  unfolding create_mkldnn_pool_fprop_kernel_def
  by (simp add: call_defs wp_rules new_calls_simps split: option.splits)

lemma bprop_hints_wp:
  "wp (create_mkldnn_pool_bprop_kernel L engine src_dims dst_dims src_sizes kernel_sizes
         dst_sizes strides padding pool_type input_src_md data_type fprop_opkernel opkernel)
     (\<lambda>_ w'. \<exists>fk. heap w fprop_opkernel = Some fk \<and>
        create_hints (new_calls w w') = [op_desc fk])
     (\<lambda>_ w'. set (create_hints (new_calls w w')) \<subseteq>
        (case heap w fprop_opkernel of None \<Rightarrow> {} | Some fk \<Rightarrow> {op_desc fk})) w"
  unfolding create_mkldnn_pool_bprop_kernel_def
  by (simp add: call_defs wp_rules new_calls_simps split: option.splits)


text \<open>
  C4. In every run of the forward builder the primitive descriptor is requested with no
  hint (\<^verbatim>\<open>NULL\<close>), and in every run of the backward builder it is requested with the
  value of \<^verbatim>\<open>fprop_opkernel->op_desc\<close> as the hint: the primitive descriptor of the forward
  opkernel, as the backward builder finds it. A run that returns has made exactly one such
  request.
\<close>

theorem primitive_desc_hint:
  assumes "create_mkldnn_pool_fprop_kernel L engine src_dims dst_dims src_sizes kernel_sizes
             dst_sizes strides padding pool_type input_src_md data_type opkernel w = (r, w')"
    and "create_mkldnn_pool_bprop_kernel L engine src_dims dst_dims src_sizes kernel_sizes
             dst_sizes strides padding pool_type input_src_md data_type fprop_opkernel opkernel v
           = (s, v')"
  shows "set (create_hints (new_calls w w')) \<subseteq> {None} \<and>
         (r = Inr () \<longrightarrow> create_hints (new_calls w w') = [None]) \<and>
         set (create_hints (new_calls v v')) \<subseteq>
           (case heap v fprop_opkernel of None \<Rightarrow> {} | Some fk \<Rightarrow> {op_desc fk}) \<and>
         (s = Inr () \<longrightarrow> (\<exists>fk. heap v fprop_opkernel = Some fk \<and>
            create_hints (new_calls v v') = [op_desc fk]))"
  using wp_run [OF fprop_hints_wp assms(1)] wp_run [OF bprop_hints_wp assms(2)]
  by (cases r; cases s) auto

lemma fwd_example_op_desc:
  "heap (snd (fwd_example pref 0 two_kernels)) 1 = Some k \<Longrightarrow> op_desc k = Some (PrimitiveDesc 3)"
  by (simp add: run_defs) auto

theorem primitive_desc_hint_witness:
  "create_hints (new_calls two_kernels (snd (fwd_example mkldnn_chwn 0 two_kernels))) = [None] \<and>
   create_hints (new_calls (snd (fwd_example mkldnn_chwn 0 two_kernels))
     (snd (bwd_example mkldnn_chwn 0 2 (snd (fwd_example mkldnn_chwn 0 two_kernels))))) =
     [Some (PrimitiveDesc 3)]"
proof -
  let ?w1 = "snd (fwd_example mkldnn_chwn 0 two_kernels)"
  let ?fwd_at = "\<lambda>w. create_mkldnn_pool_fprop_kernel (ref_api mkldnn_chwn) (Engine 0) 4 4
       [8, 16, 16, 16] [2, 2] [8, 16, 32, 32] [2, 2] [0, 0] 0 None (DataType 1) 2 w"
  let ?bwd_at = "\<lambda>w. create_mkldnn_pool_bprop_kernel (ref_api mkldnn_chwn) (Engine 0) 4 4
       [8, 16, 32, 32] [2, 2] [8, 16, 16, 16] [2, 2] [0, 0] 0 None (DataType 1) 1 1 w"
  have fwd_run: "fwd_example mkldnn_chwn 0 two_kernels = (Inr (), ?w1)"
    by (rule run_pair) (rule fwd_example_max_returns)
  have bwd_run: "bwd_example mkldnn_chwn 0 2 ?w1 = (Inr (), snd (bwd_example mkldnn_chwn 0 2 ?w1))"
    by (rule run_pair) (rule bwd_example_max_returns)
  have any_fwd: "?fwd_at ?w1 = (fst (?fwd_at ?w1), snd (?fwd_at ?w1))"
    by simp
  have any_bwd: "?bwd_at ?w1 = (fst (?bwd_at ?w1), snd (?bwd_at ?w1))"
    by simp
  from primitive_desc_hint [OF fwd_run any_bwd]
  have "create_hints (new_calls two_kernels ?w1) = [None]"
    by simp
  moreover
  from primitive_desc_hint [OF any_fwd bwd_run]
  have "\<exists>fk. heap ?w1 1 = Some fk \<and>
      create_hints (new_calls ?w1 (snd (bwd_example mkldnn_chwn 0 2 ?w1))) = [op_desc fk]"
    by simp
  ultimately show ?thesis
    using fwd_example_op_desc by fastforce
qed

subsection \<open>Source and destination descriptors\<close>

lemma answered_memory_desc:
  "answered (r :: mkldnn_status \<times> mkldnn_memory_desc) v = (v = r)"
  by (simp add: answered_def)

lemma fprop_mds_wp:
  "wp (create_mkldnn_pool_fprop_kernel L engine src_dims dst_dims src_sizes kernel_sizes
         dst_sizes strides padding pool_type input_src_md data_type opkernel)
     (\<lambda>_ w'.
        memory_desc_requests (new_calls w w') =
          spec_source_md_calls src_dims src_sizes data_type input_src_md @
          [MemoryDescInit dst_dims dst_sizes data_type mkldnn_any] \<and>
        forward_desc_mds (new_calls w w') =
          [(spec_source_md L (calls w) src_dims src_sizes data_type input_src_md,
            spec_destination_md L
              (calls w @ spec_source_md_calls src_dims src_sizes data_type input_src_md)
              dst_dims dst_sizes data_type)])
     (\<lambda>_ w'.
        set (forward_desc_mds (new_calls w w')) \<subseteq>
          {(spec_source_md L (calls w) src_dims src_sizes data_type input_src_md,
            spec_destination_md L
              (calls w @ spec_source_md_calls src_dims src_sizes data_type input_src_md)
              dst_dims dst_sizes data_type)}) w"
  unfolding create_mkldnn_pool_fprop_kernel_def
  by (simp add: call_defs wp_rules new_calls_simps answered_memory_desc spec_source_md_def
        spec_source_md_calls_def spec_destination_md_def split: option.splits)

lemma bprop_mds_wp:
  "wp (create_mkldnn_pool_bprop_kernel L engine src_dims dst_dims src_sizes kernel_sizes
         dst_sizes strides padding pool_type input_src_md data_type fprop_opkernel opkernel)
     (\<lambda>_ w'.
        memory_desc_requests (new_calls w w') =
          spec_source_md_calls src_dims src_sizes data_type input_src_md @
          [MemoryDescInit dst_dims dst_sizes data_type mkldnn_any] \<and>
        backward_desc_mds (new_calls w w') =
          [(spec_destination_md L
              (calls w @ spec_source_md_calls src_dims src_sizes data_type input_src_md)
              dst_dims dst_sizes data_type,
            spec_source_md L (calls w) src_dims src_sizes data_type input_src_md)])
     (\<lambda>_ w'.
        set (backward_desc_mds (new_calls w w')) \<subseteq>
          {(spec_destination_md L
              (calls w @ spec_source_md_calls src_dims src_sizes data_type input_src_md)
              dst_dims dst_sizes data_type,
            spec_source_md L (calls w) src_dims src_sizes data_type input_src_md)}) w"
  unfolding create_mkldnn_pool_bprop_kernel_def
  by (simp add: call_defs wp_rules new_calls_simps answered_memory_desc spec_source_md_def
        spec_source_md_calls_def spec_destination_md_def split: option.splits)

text \<open>
  C6. In both builders the source descriptor is the caller's explicit descriptor when one
  is supplied, and otherwise the descriptor the library makes from the source rank, the
  source extents and the data type with the default layout \<open>mkldnn_chwn\<close>; the destination
  descriptor is the one the library makes from the destination rank and extents with the
  automatic layout \<open>mkldnn_any\<close>, whether or not an explicit source descriptor is supplied.
  These two descriptors are what the request for the pooling descriptor receives: as source
  and destination in the forward builder, as diff-destination and diff-source in the
  backward builder.
\<close>

theorem memory_descriptors_resolved:
  assumes "create_mkldnn_pool_fprop_kernel L engine src_dims dst_dims src_sizes kernel_sizes
             dst_sizes strides padding pool_type input_src_md data_type opkernel w = (r, w')"
    and "create_mkldnn_pool_bprop_kernel L engine src_dims dst_dims src_sizes kernel_sizes
             dst_sizes strides padding pool_type input_src_md data_type fprop_opkernel opkernel v
           = (s, v')"
  shows "set (forward_desc_mds (new_calls w w')) \<subseteq>
           {(spec_source_md L (calls w) src_dims src_sizes data_type input_src_md,
             spec_destination_md L
               (calls w @ spec_source_md_calls src_dims src_sizes data_type input_src_md)
               dst_dims dst_sizes data_type)} \<and>
         set (backward_desc_mds (new_calls v v')) \<subseteq>
           {(spec_destination_md L
               (calls v @ spec_source_md_calls src_dims src_sizes data_type input_src_md)
               dst_dims dst_sizes data_type,
             spec_source_md L (calls v) src_dims src_sizes data_type input_src_md)} \<and>
         (r = Inr () \<longrightarrow>
            memory_desc_requests (new_calls w w') =
              spec_source_md_calls src_dims src_sizes data_type input_src_md @
              [MemoryDescInit dst_dims dst_sizes data_type mkldnn_any] \<and>
            forward_desc_mds (new_calls w w') =
              [(spec_source_md L (calls w) src_dims src_sizes data_type input_src_md,
                spec_destination_md L
                  (calls w @ spec_source_md_calls src_dims src_sizes data_type input_src_md)
                  dst_dims dst_sizes data_type)]) \<and>
         (s = Inr () \<longrightarrow>
            memory_desc_requests (new_calls v v') =
              spec_source_md_calls src_dims src_sizes data_type input_src_md @
              [MemoryDescInit dst_dims dst_sizes data_type mkldnn_any] \<and>
            backward_desc_mds (new_calls v v') =
              [(spec_destination_md L
                  (calls v @ spec_source_md_calls src_dims src_sizes data_type input_src_md)
                  dst_dims dst_sizes data_type,
                spec_source_md L (calls v) src_dims src_sizes data_type input_src_md)])"
  using wp_run [OF fprop_mds_wp assms(1)] wp_run [OF bprop_mds_wp assms(2)]
  by (cases r; cases s) auto

text \<open>
  An instance: the forward builder run with an explicit source descriptor, and the backward
  builder run, after a forward build, without one.
\<close>

lemma fwd_explicit_returns:
  "fst (create_mkldnn_pool_fprop_kernel (ref_api mkldnn_chwn) (Engine 0) 4 4 [8, 16, 32, 32]
          [2, 2] [8, 16, 16, 16] [2, 2] [0, 0] 0
          (Some \<lparr>md_ndims = 4, md_dims = [8, 16, 32, 32], md_data_type = DataType 1,
                 md_format = memory_format_other 5\<rparr>)
          (DataType 1) 2 two_kernels) = Inr ()"
  by (simp add: run_defs)

theorem memory_descriptors_resolved_witness:
  "forward_desc_mds (new_calls two_kernels
     (snd (create_mkldnn_pool_fprop_kernel (ref_api mkldnn_chwn) (Engine 0) 4 4 [8, 16, 32, 32]
          [2, 2] [8, 16, 16, 16] [2, 2] [0, 0] 0
          (Some \<lparr>md_ndims = 4, md_dims = [8, 16, 32, 32], md_data_type = DataType 1,
                 md_format = memory_format_other 5\<rparr>)
          (DataType 1) 2 two_kernels))) =
     [(\<lparr>md_ndims = 4, md_dims = [8, 16, 32, 32], md_data_type = DataType 1,
         md_format = memory_format_other 5\<rparr>,
       \<lparr>md_ndims = 4, md_dims = [8, 16, 16, 16], md_data_type = DataType 1,
         md_format = mkldnn_any\<rparr>)] \<and>
   backward_desc_mds (new_calls (snd (fwd_example mkldnn_chwn 0 two_kernels))
     (snd (bwd_example mkldnn_chwn 0 2 (snd (fwd_example mkldnn_chwn 0 two_kernels))))) =
     [(\<lparr>md_ndims = 4, md_dims = [8, 16, 32, 32], md_data_type = DataType 1,
         md_format = mkldnn_any\<rparr>,
       \<lparr>md_ndims = 4, md_dims = [8, 16, 16, 16], md_data_type = DataType 1,
         md_format = mkldnn_chwn\<rparr>)]"
proof -
  let ?w1 = "snd (fwd_example mkldnn_chwn 0 two_kernels)"
  let ?md = "\<lparr>md_ndims = 4, md_dims = [8, 16, 32, 32], md_data_type = DataType 1,
                 md_format = memory_format_other 5\<rparr>"
  let ?fwd = "create_mkldnn_pool_fprop_kernel (ref_api mkldnn_chwn) (Engine 0) 4 4
       [8, 16, 32, 32] [2, 2] [8, 16, 16, 16] [2, 2] [0, 0] 0 (Some ?md) (DataType 1) 2"
  let ?bwd_any = "create_mkldnn_pool_bprop_kernel (ref_api mkldnn_chwn) (Engine 0) 4 4
       [8, 16, 32, 32] [2, 2] [8, 16, 16, 16] [2, 2] [0, 0] 0 (Some ?md) (DataType 1) 1 2"
  let ?fwd_any = "create_mkldnn_pool_fprop_kernel (ref_api mkldnn_chwn) (Engine 0) 4 4
       [8, 16, 16, 16] [2, 2] [8, 16, 32, 32] [2, 2] [0, 0] 0 None (DataType 1) 2"
  have fwd_run: "?fwd two_kernels = (Inr (), snd (?fwd two_kernels))"
    by (rule run_pair) (rule fwd_explicit_returns)
  have bwd_run: "bwd_example mkldnn_chwn 0 2 ?w1 = (Inr (), snd (bwd_example mkldnn_chwn 0 2 ?w1))"
    by (rule run_pair) (rule bwd_example_max_returns)
  have any_bwd: "?bwd_any ?w1 = (fst (?bwd_any ?w1), snd (?bwd_any ?w1))"
    by simp
  have any_fwd: "?fwd_any ?w1 = (fst (?fwd_any ?w1), snd (?fwd_any ?w1))"
    by simp
  from memory_descriptors_resolved [OF fwd_run any_bwd]
  have "forward_desc_mds (new_calls two_kernels (snd (?fwd two_kernels))) =
      [(spec_source_md (ref_api mkldnn_chwn) (calls two_kernels) 4 [8, 16, 32, 32] (DataType 1)
          (Some ?md),
        spec_destination_md (ref_api mkldnn_chwn)
          (calls two_kernels @ spec_source_md_calls 4 [8, 16, 32, 32] (DataType 1) (Some ?md))
          4 [8, 16, 16, 16] (DataType 1))]"
    by simp
  moreover
  from memory_descriptors_resolved [OF any_fwd bwd_run]
  have "backward_desc_mds (new_calls ?w1 (snd (bwd_example mkldnn_chwn 0 2 ?w1))) =
      [(spec_destination_md (ref_api mkldnn_chwn)
          (calls ?w1 @ spec_source_md_calls 4 [8, 16, 16, 16] (DataType 1) None)
          4 [8, 16, 32, 32] (DataType 1),
        spec_source_md (ref_api mkldnn_chwn) (calls ?w1) 4 [8, 16, 16, 16] (DataType 1) None)]"
    by simp
  ultimately show ?thesis
    by (simp add: spec_source_md_def spec_destination_md_def ref_api_def)
qed

subsection \<open>The pooling type\<close>

lemma fprop_alg_wp:
  "wp (create_mkldnn_pool_fprop_kernel L engine src_dims dst_dims src_sizes kernel_sizes
         dst_sizes strides padding pool_type input_src_md data_type opkernel)
     (\<lambda>_ w'. \<exists>k. heap w' opkernel = Some k \<and>
        pooling_algs (new_calls w w') = [alg_of pool_type] \<and>
        workspace_queries (new_calls w w') =
          (if pool_type = 0
           then [PrimitiveDescQueryPd (op_desc k) mkldnn_query_workspace_pd 0] else []) \<and>
        int (length (tensor_calls (new_calls w w'))) = num_inputs k + num_outputs k \<and>
        num_inputs k + num_outputs k = (if pool_type = 0 then 3 else 2))
     (\<lambda>_ w'. set (pooling_algs (new_calls w w')) \<subseteq> {alg_of pool_type} \<and>
        (pool_type \<noteq> 0 \<longrightarrow> workspace_queries (new_calls w w') = [])) w"
  unfolding create_mkldnn_pool_fprop_kernel_def
  by (simp add: call_defs wp_rules new_calls_simps alg_of_def split: option.splits)

lemma bprop_alg_wp:
  "wp (create_mkldnn_pool_bprop_kernel L engine src_dims dst_dims src_sizes kernel_sizes
         dst_sizes strides padding pool_type input_src_md data_type fprop_opkernel opkernel)
     (\<lambda>_ w'. \<exists>k. heap w' opkernel = Some k \<and>
        pooling_algs (new_calls w w') = [alg_of pool_type] \<and>
        workspace_queries (new_calls w w') =
          (if pool_type = 0
           then [PrimitiveDescQueryPd (op_desc k) mkldnn_query_workspace_pd 0] else []) \<and>
        int (length (tensor_calls (new_calls w w'))) = num_inputs k + num_outputs k \<and>
        num_inputs k + num_outputs k = (if pool_type = 0 then 3 else 2))
     (\<lambda>_ w'. set (pooling_algs (new_calls w w')) \<subseteq> {alg_of pool_type} \<and>
        (pool_type \<noteq> 0 \<longrightarrow> workspace_queries (new_calls w w') = [])) w"
  unfolding create_mkldnn_pool_bprop_kernel_def
  by (simp add: call_defs wp_rules new_calls_simps alg_of_def split: option.splits)

text \<open>
  C9. In both builders the pooling type 0, and no other, selects max pooling: a run requests
  the pooling descriptor with \<open>mkldnn_pooling_max\<close> when \<open>pool_type = 0\<close> and with
  \<open>mkldnn_pooling_avg\<close> for every other value; a run that returns has queried the workspace
  descriptor once when \<open>pool_type = 0\<close> and never otherwise, and has made three tensors,
  counted by \<open>num_inputs\<close> and \<open>num_outputs\<close>, when \<open>pool_type = 0\<close> and two otherwise.
  With a pooling type other than 0, each builder is the same program as with the pooling
  type 1, the code of average pooling: the same calls, the same writes to the opkernel, the
  same result. This holds for every integer \<open>pool_type\<close>, so for every value of a C
  \<^verbatim>\<open>int\<close>.
\<close>

theorem pool_type_zero_selects_max:
  assumes "m = create_mkldnn_pool_fprop_kernel L engine src_dims dst_dims src_sizes kernel_sizes
             dst_sizes strides padding pool_type input_src_md data_type opkernel \<or>
           m = create_mkldnn_pool_bprop_kernel L engine src_dims dst_dims src_sizes kernel_sizes
             dst_sizes strides padding pool_type input_src_md data_type fprop_opkernel opkernel"
    and "m w = (r, w')"
  shows "(pool_type \<noteq> 0 \<longrightarrow>
            create_mkldnn_pool_fprop_kernel L engine src_dims dst_dims src_sizes kernel_sizes
              dst_sizes strides padding pool_type input_src_md data_type opkernel =
            create_mkldnn_pool_fprop_kernel L engine src_dims dst_dims src_sizes kernel_sizes
              dst_sizes strides padding 1 input_src_md data_type opkernel \<and>
            create_mkldnn_pool_bprop_kernel L engine src_dims dst_dims src_sizes kernel_sizes
              dst_sizes strides padding pool_type input_src_md data_type fprop_opkernel opkernel =
            create_mkldnn_pool_bprop_kernel L engine src_dims dst_dims src_sizes kernel_sizes
              dst_sizes strides padding 1 input_src_md data_type fprop_opkernel opkernel) \<and>
         set (pooling_algs (new_calls w w')) \<subseteq>
           {if pool_type = 0 then mkldnn_pooling_max else mkldnn_pooling_avg} \<and>
         (pool_type \<noteq> 0 \<longrightarrow> workspace_queries (new_calls w w') = []) \<and>
         (r = Inr () \<longrightarrow>
            (\<exists>k. heap w' opkernel = Some k \<and>
               pooling_algs (new_calls w w') =
                 [if pool_type = 0 then mkldnn_pooling_max else mkldnn_pooling_avg] \<and>
               workspace_queries (new_calls w w') =
                 (if pool_type = 0
                  then [PrimitiveDescQueryPd (op_desc k) mkldnn_query_workspace_pd 0] else []) \<and>
               int (length (tensor_calls (new_calls w w'))) = num_inputs k + num_outputs k \<and>
               num_inputs k + num_outputs k = (if pool_type = 0 then 3 else 2)))"
proof -
  have same_fprop:
    "create_mkldnn_pool_fprop_kernel L engine src_dims dst_dims src_sizes kernel_sizes
       dst_sizes strides padding pool_type input_src_md data_type opkernel =
     create_mkldnn_pool_fprop_kernel L engine src_dims dst_dims src_sizes kernel_sizes
       dst_sizes strides padding 1 input_src_md data_type opkernel"
    if "pool_type \<noteq> 0"
    using that by (simp add: create_mkldnn_pool_fprop_kernel_def)
  have same_bprop:
    "create_mkldnn_pool_bprop_kernel L engine src_dims dst_dims src_sizes kernel_sizes
       dst_sizes strides padding pool_type input_src_md data_type fprop_opkernel opkernel =
     create_mkldnn_pool_bprop_kernel L engine src_dims dst_dims src_sizes kernel_sizes
       dst_sizes strides padding 1 input_src_md data_type fprop_opkernel opkernel"
    if "pool_type \<noteq> 0"
    using that by (simp add: create_mkldnn_pool_bprop_kernel_def)
  have "wp m
     (\<lambda>_ w'. \<exists>k. heap w' opkernel = Some k \<and>
        pooling_algs (new_calls w w') = [alg_of pool_type] \<and>
        workspace_queries (new_calls w w') =
          (if pool_type = 0
           then [PrimitiveDescQueryPd (op_desc k) mkldnn_query_workspace_pd 0] else []) \<and>
        int (length (tensor_calls (new_calls w w'))) = num_inputs k + num_outputs k \<and>
        num_inputs k + num_outputs k = (if pool_type = 0 then 3 else 2))
     (\<lambda>_ w'. set (pooling_algs (new_calls w w')) \<subseteq> {alg_of pool_type} \<and>
        (pool_type \<noteq> 0 \<longrightarrow> workspace_queries (new_calls w w') = [])) w"
    using assms(1)
  proof
    assume "m = create_mkldnn_pool_fprop_kernel L engine src_dims dst_dims src_sizes
      kernel_sizes dst_sizes strides padding pool_type input_src_md data_type opkernel"
    then show ?thesis
      by (simp only: fprop_alg_wp)
  next
    assume "m = create_mkldnn_pool_bprop_kernel L engine src_dims dst_dims src_sizes
      kernel_sizes dst_sizes strides padding pool_type input_src_md data_type fprop_opkernel
      opkernel"
    then show ?thesis
      by (simp only: bprop_alg_wp)
  qed
  from wp_run [OF this assms(2)]
  have "set (pooling_algs (new_calls w w')) \<subseteq>
           {if pool_type = 0 then mkldnn_pooling_max else mkldnn_pooling_avg} \<and>
         (pool_type \<noteq> 0 \<longrightarrow> workspace_queries (new_calls w w') = []) \<and>
         (r = Inr () \<longrightarrow>
            (\<exists>k. heap w' opkernel = Some k \<and>
               pooling_algs (new_calls w w') =
                 [if pool_type = 0 then mkldnn_pooling_max else mkldnn_pooling_avg] \<and>
               workspace_queries (new_calls w w') =
                 (if pool_type = 0
                  then [PrimitiveDescQueryPd (op_desc k) mkldnn_query_workspace_pd 0] else []) \<and>
               int (length (tensor_calls (new_calls w w'))) = num_inputs k + num_outputs k \<and>
               num_inputs k + num_outputs k = (if pool_type = 0 then 3 else 2)))"
    by (cases r) (auto simp add: alg_of_def)
  with same_fprop same_bprop show ?thesis
    by blast
qed

lemma bwd_example_7_returns:
  "fst (bwd_example pref 7 2 (snd (fwd_example pref 7 two_kernels))) = Inr ()"
  by (simp add: run_defs)

lemma fwd_example_7_returns: "fst (fwd_example pref 7 two_kernels) = Inr ()"
  by (simp add: run_defs)

theorem pool_type_zero_selects_max_witness:
  "fwd_example mkldnn_chwn 7 = fwd_example mkldnn_chwn 1 \<and>
   bwd_example mkldnn_chwn 7 2 = bwd_example mkldnn_chwn 1 2 \<and>
   pooling_algs (new_calls two_kernels (snd (fwd_example mkldnn_chwn 7 two_kernels))) =
     [mkldnn_pooling_avg] \<and>
   workspace_queries (new_calls two_kernels (snd (fwd_example mkldnn_chwn 7 two_kernels))) = [] \<and>
   pooling_algs (new_calls (snd (fwd_example mkldnn_chwn 7 two_kernels))
     (snd (bwd_example mkldnn_chwn 7 2 (snd (fwd_example mkldnn_chwn 7 two_kernels))))) =
     [mkldnn_pooling_avg] \<and>
   workspace_queries (new_calls (snd (fwd_example mkldnn_chwn 7 two_kernels))
     (snd (bwd_example mkldnn_chwn 7 2 (snd (fwd_example mkldnn_chwn 7 two_kernels))))) = [] \<and>
   pooling_algs (new_calls two_kernels (snd (fwd_example mkldnn_chwn 0 two_kernels))) =
     [mkldnn_pooling_max] \<and>
   length (workspace_queries
     (new_calls two_kernels (snd (fwd_example mkldnn_chwn 0 two_kernels)))) = 1 \<and>
   pooling_algs (new_calls (snd (fwd_example mkldnn_chwn 0 two_kernels))
     (snd (bwd_example mkldnn_chwn 0 2 (snd (fwd_example mkldnn_chwn 0 two_kernels))))) =
     [mkldnn_pooling_max] \<and>
   length (workspace_queries (new_calls (snd (fwd_example mkldnn_chwn 0 two_kernels))
     (snd (bwd_example mkldnn_chwn 0 2 (snd (fwd_example mkldnn_chwn 0 two_kernels)))))) = 1"
proof -
  let ?f7 = "snd (fwd_example mkldnn_chwn 7 two_kernels)"
  let ?f0 = "snd (fwd_example mkldnn_chwn 0 two_kernels)"
  have nonzero: "(7::int) \<noteq> 0"
    by simp
  have f7_run: "fwd_example mkldnn_chwn 7 two_kernels = (Inr (), ?f7)"
    by (rule run_pair) (rule fwd_example_7_returns)
  have b7_run: "bwd_example mkldnn_chwn 7 2 ?f7 = (Inr (), snd (bwd_example mkldnn_chwn 7 2 ?f7))"
    by (rule run_pair) (rule bwd_example_7_returns)
  have f0_run: "fwd_example mkldnn_chwn 0 two_kernels = (Inr (), ?f0)"
    by (rule run_pair) (rule fwd_example_max_returns)
  have b0_run: "bwd_example mkldnn_chwn 0 2 ?f0 = (Inr (), snd (bwd_example mkldnn_chwn 0 2 ?f0))"
    by (rule run_pair) (rule bwd_example_max_returns)
  note f7 = pool_type_zero_selects_max [OF disjI1 [OF refl] f7_run, where fprop_opkernel = 1]
  note b7 = pool_type_zero_selects_max [OF disjI2 [OF refl] b7_run]
  note f0 = pool_type_zero_selects_max [OF disjI1 [OF refl] f0_run, where fprop_opkernel = 1]
  note b0 = pool_type_zero_selects_max [OF disjI2 [OF refl] b0_run]
  from f7 nonzero have same_f: "fwd_example mkldnn_chwn 7 = fwd_example mkldnn_chwn 1"
    by blast
  from b7 nonzero have same_b: "bwd_example mkldnn_chwn 7 2 = bwd_example mkldnn_chwn 1 2"
    by blast
  from f7 have "pooling_algs (new_calls two_kernels ?f7) = [mkldnn_pooling_avg] \<and>
      workspace_queries (new_calls two_kernels ?f7) = []"
    by auto
  moreover from b7 have "pooling_algs (new_calls ?f7 (snd (bwd_example mkldnn_chwn 7 2 ?f7))) =
      [mkldnn_pooling_avg] \<and>
      workspace_queries (new_calls ?f7 (snd (bwd_example mkldnn_chwn 7 2 ?f7))) = []"
    by auto
  moreover from f0 have "pooling_algs (new_calls two_kernels ?f0) = [mkldnn_pooling_max] \<and>
      length (workspace_queries (new_calls two_kernels ?f0)) = 1"
    by auto
  moreover from b0 have "pooling_algs (new_calls ?f0 (snd (bwd_example mkldnn_chwn 0 2 ?f0))) =
      [mkldnn_pooling_max] \<and>
      length (workspace_queries (new_calls ?f0 (snd (bwd_example mkldnn_chwn 0 2 ?f0)))) = 1"
    by auto
  ultimately show ?thesis
    using same_f same_b by (simp only: simp_thms)
qed

subsection \<open>The net\<close>

lemma fprop_net_wp:
  "wp (create_mkldnn_pool_fprop_kernel L engine src_dims dst_dims src_sizes kernel_sizes
         dst_sizes strides padding pool_type input_src_md data_type opkernel)
     (\<lambda>_ w'. \<exists>k k'. heap w opkernel = Some k \<and> heap w' opkernel = Some k' \<and>
        0 \<le> net_size k \<and> net_size k < int (length (net k)) \<and>
        net_size k' = net_size k + 1 \<and> net k' = (net k)[nat (net_size k) := op_prim k'] \<and>
        (\<forall>q. q \<noteq> opkernel \<longrightarrow> heap w' q = heap w q))
     (\<lambda>_ w'. \<forall>q. net_of w' q = net_of w q) w"
  unfolding create_mkldnn_pool_fprop_kernel_def
  by (simp add: call_defs wp_rules net_of_def split: option.splits)

lemma bprop_net_wp:
  "wp (create_mkldnn_pool_bprop_kernel L engine src_dims dst_dims src_sizes kernel_sizes
         dst_sizes strides padding pool_type input_src_md data_type fprop_opkernel opkernel)
     (\<lambda>_ w'. \<exists>k k'. heap w opkernel = Some k \<and> heap w' opkernel = Some k' \<and>
        0 \<le> net_size k \<and> net_size k < int (length (net k)) \<and>
        net_size k' = net_size k + 1 \<and> net k' = (net k)[nat (net_size k) := op_prim k'] \<and>
        (\<forall>q. q \<noteq> opkernel \<longrightarrow> heap w' q = heap w q))
     (\<lambda>_ w'. \<forall>q. net_of w' q = net_of w q) w"
  unfolding create_mkldnn_pool_bprop_kernel_def
  by (simp add: call_defs wp_rules net_of_def split: option.splits)

lemma net_of_appended:
  assumes "heap w p = Some k" "heap w' p = Some k'"
    and "0 \<le> net_size k" "net_size k < int (length (net k))"
    and "net_size k' = net_size k + 1" "net k' = (net k)[nat (net_size k) := v]"
  shows "net_of w' p = net_of w p @ [v]"
proof -
  have "nat (net_size k + 1) = Suc (nat (net_size k))"
    using assms(3) by simp
  moreover have "nat (net_size k) < length (net k)"
    using assms(3,4) by simp
  ultimately show ?thesis
    using assms(1,2,5,6) by (simp add: net_of_def take_Suc_conv_app_nth)
qed

lemma net_of_same: "heap w' p = heap w p \<Longrightarrow> net_of w' p = net_of w p"
  by (simp add: net_of_def)

lemma fprop_appends_one:
  assumes "create_mkldnn_pool_fprop_kernel L engine src_dims dst_dims src_sizes kernel_sizes
             dst_sizes strides padding pool_type input_src_md data_type opkernel w = (Inr u, w')"
  shows "\<exists>k k'. heap w opkernel = Some k \<and> heap w' opkernel = Some k' \<and>
           net_size k' = net_size k + 1 \<and> net k' = (net k)[nat (net_size k) := op_prim k'] \<and>
           net_of w' opkernel = net_of w opkernel @ [op_prim k'] \<and>
           (\<forall>q. q \<noteq> opkernel \<longrightarrow> heap w' q = heap w q)"
  using wp_returns [OF fprop_net_wp assms] by (auto intro: net_of_appended)

lemma bprop_appends_one:
  assumes "create_mkldnn_pool_bprop_kernel L engine src_dims dst_dims src_sizes kernel_sizes
             dst_sizes strides padding pool_type input_src_md data_type fprop_opkernel opkernel w
           = (Inr u, w')"
  shows "\<exists>k k'. heap w opkernel = Some k \<and> heap w' opkernel = Some k' \<and>
           net_size k' = net_size k + 1 \<and> net k' = (net k)[nat (net_size k) := op_prim k'] \<and>
           net_of w' opkernel = net_of w opkernel @ [op_prim k'] \<and>
           (\<forall>q. q \<noteq> opkernel \<longrightarrow> heap w' q = heap w q)"
  using wp_returns [OF bprop_net_wp assms] by (auto intro: net_of_appended)

text \<open>
  C5, as the code has it. The net is a member of the opkernel a builder is given. A builder
  invocation that returns appends exactly one primitive, the opkernel's \<open>op_prim\<close>, to that
  net: it writes the slot at index \<open>net_size\<close> and no other slot, adds one to \<open>net_size\<close>,
  and leaves every other opkernel as it was. After a forward build in the opkernel at
  \<open>f\<close> and a backward build in the opkernel at \<open>b\<close>, with the forward opkernel as its hint:
  when the two opkernels are different objects, each of the two nets has exactly one new
  entry; when they are the same object, its net has two new entries, the forward primitive
  before the backward one.
\<close>

theorem net_append_per_opkernel:
  assumes "create_mkldnn_pool_fprop_kernel L engine src_dims dst_dims src_sizes kernel_sizes
             dst_sizes strides padding pool_type input_src_md data_type f w = (Inr u, w1)"
    and "create_mkldnn_pool_bprop_kernel L engine' src_dims' dst_dims' src_sizes' kernel_sizes'
             dst_sizes' strides' padding' pool_type' input_src_md' data_type' f b w1
           = (Inr u', w2)"
  shows "\<exists>k0 kf k1 kb.
           heap w f = Some k0 \<and> heap w1 f = Some kf \<and>
           heap w1 b = Some k1 \<and> heap w2 b = Some kb \<and>
           net_size kf = net_size k0 + 1 \<and>
           net kf = (net k0)[nat (net_size k0) := op_prim kf] \<and>
           net_size kb = net_size k1 + 1 \<and>
           net kb = (net k1)[nat (net_size k1) := op_prim kb] \<and>
           net_of w1 f = net_of w f @ [op_prim kf] \<and>
           (\<forall>q. q \<noteq> f \<longrightarrow> heap w1 q = heap w q) \<and>
           net_of w2 b = net_of w1 b @ [op_prim kb] \<and>
           (\<forall>q. q \<noteq> b \<longrightarrow> heap w2 q = heap w1 q) \<and>
           (b \<noteq> f \<longrightarrow> net_of w2 f = net_of w f @ [op_prim kf] \<and>
                       net_of w2 b = net_of w b @ [op_prim kb]) \<and>
           (b = f \<longrightarrow> net_of w2 f = net_of w f @ [op_prim kf, op_prim kb])"
proof -
  from fprop_appends_one [OF assms(1)] obtain k0 kf where
    kf: "heap w1 f = Some kf" "net_of w1 f = net_of w f @ [op_prim kf]"
      "\<forall>q. q \<noteq> f \<longrightarrow> heap w1 q = heap w q"
    and k0: "heap w f = Some k0" "net_size kf = net_size k0 + 1"
      "net kf = (net k0)[nat (net_size k0) := op_prim kf]"
    by blast
  from bprop_appends_one [OF assms(2)] obtain k1 kb where
    kb: "heap w2 b = Some kb" "net_of w2 b = net_of w1 b @ [op_prim kb]"
      "\<forall>q. q \<noteq> b \<longrightarrow> heap w2 q = heap w1 q"
    and k1: "heap w1 b = Some k1" "net_size kb = net_size k1 + 1"
      "net kb = (net k1)[nat (net_size k1) := op_prim kb]"
    by blast
  have distinct: "net_of w2 f = net_of w f @ [op_prim kf] \<and>
      net_of w2 b = net_of w b @ [op_prim kb]" if "b \<noteq> f"
  proof -
    from that kb(3) have "heap w2 f = heap w1 f"
      by simp
    then have "net_of w2 f = net_of w1 f"
      by (rule net_of_same)
    moreover from that kf(3) have "heap w1 b = heap w b"
      by simp
    then have "net_of w1 b = net_of w b"
      by (rule net_of_same)
    ultimately show ?thesis
      using kf(2) kb(2) by simp
  qed
  have same: "net_of w2 f = net_of w f @ [op_prim kf, op_prim kb]" if "b = f"
    using that kf(2) kb(2) by simp
  from kf kb k0 k1 distinct same show ?thesis
    by blast
qed

theorem net_append_per_opkernel_witness:
  "\<exists>kf kb. heap (snd (fwd_example mkldnn_chwn 0 two_kernels)) 1 = Some kf \<and>
     heap (snd (bwd_example mkldnn_chwn 0 2 (snd (fwd_example mkldnn_chwn 0 two_kernels)))) 2
       = Some kb \<and>
     net_of (snd (bwd_example mkldnn_chwn 0 2 (snd (fwd_example mkldnn_chwn 0 two_kernels)))) 1
       = net_of two_kernels 1 @ [op_prim kf] \<and>
     net_of (snd (bwd_example mkldnn_chwn 0 2 (snd (fwd_example mkldnn_chwn 0 two_kernels)))) 2
       = net_of two_kernels 2 @ [op_prim kb]"
proof -
  let ?w1 = "snd (fwd_example mkldnn_chwn 0 two_kernels)"
  have fwd_run: "fwd_example mkldnn_chwn 0 two_kernels = (Inr (), ?w1)"
    by (rule run_pair) (rule fwd_example_max_returns)
  have bwd_run: "bwd_example mkldnn_chwn 0 2 ?w1 = (Inr (), snd (bwd_example mkldnn_chwn 0 2 ?w1))"
    by (rule run_pair) (rule bwd_example_max_returns)
  have "(2::nat) \<noteq> 1"
    by simp
  with net_append_per_opkernel [OF fwd_run bwd_run] show ?thesis
    by blast
qed

text \<open>
  The statement of the specification, that one net holds the two new entries, does not
  hold on the example: the forward and the backward kernel are built in the two opkernels at
  1 and 2, both nets start empty, both builds return, and afterwards each net holds one
  primitive; no net holds two.
\<close>

theorem net_two_entries_counterexample:
  "net_of two_kernels 1 = [] \<and> net_of two_kernels 2 = [] \<and>
   fst (fwd_example mkldnn_chwn 0 two_kernels) = Inr () \<and>
   fst (bwd_example mkldnn_chwn 0 2 (snd (fwd_example mkldnn_chwn 0 two_kernels))) = Inr () \<and>
   net_of (snd (bwd_example mkldnn_chwn 0 2 (snd (fwd_example mkldnn_chwn 0 two_kernels)))) 1
     = [Some (Primitive 12)] \<and>
   net_of (snd (bwd_example mkldnn_chwn 0 2 (snd (fwd_example mkldnn_chwn 0 two_kernels)))) 2
     = [Some (Primitive 25)]"
  by (simp add: run_defs net_of_def) (simp add: eval_nat_numeral)

subsection \<open>Failure of a library call\<close>

lemma all_succeed_append:
  "all_succeed L h (xs @ ys) = (all_succeed L h xs \<and> all_succeed L (h @ xs) ys)"
  by (induction xs arbitrary: h) auto

lemma all_succeed_butlast: "all_succeed L h xs \<Longrightarrow> all_succeed L h (butlast xs)"
proof (cases xs rule: rev_cases)
  case Nil
  then show ?thesis by simp
next
  case (snoc ys y)
  assume "all_succeed L h xs"
  with snoc show ?thesis
    by (simp add: all_succeed_append)
qed

lemma all_succeed_last:
  assumes "all_succeed L h xs" "xs \<noteq> []"
  shows "call_status L (h @ butlast xs) (last xs) = mkldnn_success"
proof (cases xs rule: rev_cases)
  case Nil
  with assms(2) show ?thesis by simp
next
  case (snoc ys y)
  with assms(1) show ?thesis
    by (simp add: all_succeed_append)
qed

lemma status_ok_ret: "status_ok L (ret x)"
  by (simp add: status_ok_def ret_def stops_at_failure_def)

lemma status_ok_crash:
  "e \<in> {NullDeref, OutOfBounds, BadPointer} \<Longrightarrow> status_ok L (abort e)"
  by (auto simp add: status_ok_def abort_def stops_at_failure_def)

lemma status_ok_andthen:
  assumes m: "status_ok L m" and f: "\<And>x. status_ok L (f x)"
  shows "status_ok L (andthen m f)"
  unfolding status_ok_def
proof (intro allI impI)
  fix w r w'
  assume run: "andthen m f w = (r, w')"
  obtain r1 w1 where m_run: "m w = (r1, w1)"
    by (cases "m w")
  from m m_run obtain new1 where
    new1: "calls w1 = calls w @ new1" "stops_at_failure L (calls w) new1 r1"
    unfolding status_ok_def by blast
  show "\<exists>new. calls w' = calls w @ new \<and> stops_at_failure L (calls w) new r"
  proof (cases r1)
    case (Inl e)
    with run m_run have "r = Inl e" "w' = w1"
      by (simp_all add: andthen_def)
    with new1 Inl show ?thesis
      by (auto simp add: stops_at_failure_def)
  next
    case (Inr x)
    with run m_run have f_run: "f x w1 = (r, w')"
      by (simp add: andthen_def)
    from f [of x] f_run obtain new2 where
      new2: "calls w' = calls w1 @ new2" "stops_at_failure L (calls w1) new2 r"
      unfolding status_ok_def by blast
    from new1(2) Inr have all1: "all_succeed L (calls w) new1"
      by (simp add: stops_at_failure_def)
    have "stops_at_failure L (calls w) (new1 @ new2) r"
    proof (cases "new2 = []")
      case True
      with new2(2) have crash: "case r of Inr x \<Rightarrow> True
          | Inl e \<Rightarrow> e \<in> {NullDeref, OutOfBounds, BadPointer}"
        by (simp add: stops_at_failure_def split: sum.splits)
      have last1: "new1 \<noteq> [] \<Longrightarrow>
          call_status L (calls w @ butlast new1) (last new1) = mkldnn_success"
        using all1 by (rule all_succeed_last)
      from True all1 crash last1 show ?thesis
        by (auto simp add: stops_at_failure_def all_succeed_butlast split: sum.splits)
    next
      case False
      then have "butlast (new1 @ new2) = new1 @ butlast new2" "last (new1 @ new2) = last new2"
        by (simp_all add: butlast_append)
      with new2(2) new1(1) all1 False show ?thesis
        by (auto simp add: stops_at_failure_def all_succeed_append split: sum.splits if_splits)
    qed
    with new1(1) new2(1) show ?thesis
      by (intro exI [of _ "new1 @ new2"]) simp
  qed
qed

lemma status_ok_if:
  "status_ok L m \<Longrightarrow> status_ok L n \<Longrightarrow> status_ok L (if b then m else n)"
  by simp

lemma status_ok_case_option:
  "status_ok L m \<Longrightarrow> (\<And>y. status_ok L (n y)) \<Longrightarrow>
   status_ok L (case x of None \<Rightarrow> m | Some y \<Rightarrow> n y)"
  by (simp split: option.splits)

lemma status_ok_query:
  "(\<And>h. call_status L h c = mkldnn_success) \<Longrightarrow> status_ok L (engine_call c f)"
  by (auto simp add: status_ok_def engine_call_def stops_at_failure_def)

lemma status_ok_checked:
  "(\<And>h. call_status L h c = fst (f h)) \<Longrightarrow> status_ok L (MKL_CHECK (engine_call c f))"
  by (auto simp add: status_ok_def MKL_CHECK_def engine_call_def andthen_def ret_def abort_def
        stops_at_failure_def split: prod.splits if_splits)

lemma status_ok_read_kernel: "status_ok L (read_kernel p)"
  by (auto simp add: status_ok_def read_kernel_def stops_at_failure_def split: option.splits)

lemma status_ok_modify_kernel: "status_ok L (modify_kernel p g)"
  by (auto simp add: status_ok_def modify_kernel_def stops_at_failure_def split: option.splits)

lemma status_ok_deref: "status_ok L (deref x)"
  by (simp add: deref_def status_ok_ret status_ok_crash split: option.splits)

lemma status_ok_get_field: "status_ok L (get_field p sel)"
  unfolding get_field_def
  by (intro status_ok_andthen status_ok_read_kernel status_ok_ret)

lemma status_ok_set_field: "status_ok L (set_field p upd v)"
  unfolding set_field_def by (rule status_ok_modify_kernel)

lemma status_ok_load_elem: "status_ok L (load_elem p sel i)"
  unfolding load_elem_def
  by (intro status_ok_andthen status_ok_read_kernel status_ok_case_option status_ok_ret
        status_ok_crash) simp

lemma status_ok_store_elem: "status_ok L (store_elem p sel upd i v)"
  unfolding store_elem_def
  by (intro status_ok_andthen status_ok_read_kernel status_ok_case_option
        status_ok_modify_kernel status_ok_crash) simp

lemma status_ok_net_append: "status_ok L (net_append p)"
  unfolding net_append_def
  by (intro status_ok_andthen status_ok_get_field status_ok_store_elem status_ok_set_field)

lemma fprop_status_ok:
  "status_ok L (create_mkldnn_pool_fprop_kernel L engine src_dims dst_dims src_sizes
     kernel_sizes dst_sizes strides padding pool_type input_src_md data_type opkernel)"
  unfolding create_mkldnn_pool_fprop_kernel_def call_defs
  by (intro status_ok_andthen status_ok_if status_ok_case_option status_ok_ret
        status_ok_checked status_ok_query status_ok_deref status_ok_get_field
        status_ok_set_field status_ok_load_elem status_ok_store_elem status_ok_net_append)
     simp_all

lemma bprop_status_ok:
  "status_ok L (create_mkldnn_pool_bprop_kernel L engine src_dims dst_dims src_sizes
     kernel_sizes dst_sizes strides padding pool_type input_src_md data_type fprop_opkernel
     opkernel)"
  unfolding create_mkldnn_pool_bprop_kernel_def call_defs
  by (intro status_ok_andthen status_ok_if status_ok_case_option status_ok_ret
        status_ok_checked status_ok_query status_ok_deref status_ok_get_field
        status_ok_set_field status_ok_load_elem status_ok_store_elem status_ok_net_append)
     simp_all

lemma all_succeed_nth:
  "all_succeed L h xs \<Longrightarrow> i < length xs \<Longrightarrow> nth_status L h xs i = mkldnn_success"
proof (induction xs arbitrary: h i)
  case Nil
  then show ?case by simp
next
  case (Cons x xs)
  show ?case
  proof (cases i)
    case 0
    with Cons.prems show ?thesis
      by (simp add: nth_status_def)
  next
    case (Suc j)
    with Cons.prems have "nth_status L (h @ [x]) xs j = mkldnn_success"
      by (intro Cons.IH) simp_all
    with Suc show ?thesis
      by (simp add: nth_status_def)
  qed
qed

lemma stops_at_failure_nth:
  assumes stops: "stops_at_failure L h new r"
    and i: "i < length new" and failed: "nth_status L h new i \<noteq> mkldnn_success"
  shows "Suc i = length new \<and> r = Inl (Fatal (nth_status L h new i))"
proof -
  from stops have but_last: "all_succeed L h (butlast new)"
    by (simp add: stops_at_failure_def)
  have is_last: "Suc i = length new"
  proof (rule ccontr)
    assume "Suc i \<noteq> length new"
    with i have less: "i < length (butlast new)"
      by simp
    then have "nth_status L h (butlast new) i = nth_status L h new i"
      by (simp add: nth_status_def nth_butlast take_butlast)
    with all_succeed_nth [OF but_last less] failed show False
      by simp
  qed
  from i have nonempty: "new \<noteq> []"
    by auto
  from is_last have "i = length new - 1"
    by simp
  with nonempty have at_last:
    "nth_status L h new i = call_status L (h @ butlast new) (last new)"
    by (simp add: nth_status_def butlast_conv_take last_conv_nth)
  have "r = Inl (Fatal (nth_status L h new i))"
  proof (cases r)
    case (Inl e)
    with stops nonempty failed at_last show ?thesis
      by (simp add: stops_at_failure_def)
  next
    case (Inr x)
    with stops have "all_succeed L h new"
      by (simp add: stops_at_failure_def)
    from all_succeed_nth [OF this i] failed show ?thesis
      by simp
  qed
  with is_last show ?thesis
    by simp
qed

text \<open>
  C8. The macro \<^verbatim>\<open>MKL_CHECK\<close> is modelled from the specification. In every run of either
  builder: whenever one of the calls the run makes does not return success, that call is the
  last step the run takes, the run does not return an opkernel but ends with the fatal
  failure that carries the status of that call, and no net has an entry more than before.
  A run that returns has had every call succeed.
\<close>

theorem failed_call_aborts:
  assumes "m = create_mkldnn_pool_fprop_kernel L engine src_dims dst_dims src_sizes kernel_sizes
             dst_sizes strides padding pool_type input_src_md data_type opkernel \<or>
           m = create_mkldnn_pool_bprop_kernel L engine src_dims dst_dims src_sizes kernel_sizes
             dst_sizes strides padding pool_type input_src_md data_type fprop_opkernel opkernel"
    and "m w = (r, w')"
  shows "calls w' = calls w @ new_calls w w' \<and>
         (\<forall>i < length (new_calls w w').
            nth_status L (calls w) (new_calls w w') i \<noteq> mkldnn_success \<longrightarrow>
              Suc i = length (new_calls w w') \<and>
              r = Inl (Fatal (nth_status L (calls w) (new_calls w w') i)) \<and>
              (\<forall>q. net_of w' q = net_of w q)) \<and>
         (r = Inr () \<longrightarrow> all_succeed L (calls w) (new_calls w w'))"
proof -
  have "status_ok L m"
    using assms(1) by (elim disjE) (simp_all only: fprop_status_ok bprop_status_ok)
  with assms(2) obtain new where
    new: "calls w' = calls w @ new" "stops_at_failure L (calls w) new r"
    unfolding status_ok_def by blast
  then have new_eq: "new_calls w w' = new"
    by (simp add: new_calls_def)
  have "wp m (\<lambda>_ _. True) (\<lambda>_ w'. \<forall>q. net_of w' q = net_of w q) w"
    using assms(1)
  proof
    assume "m = create_mkldnn_pool_fprop_kernel L engine src_dims dst_dims src_sizes
      kernel_sizes dst_sizes strides padding pool_type input_src_md data_type opkernel"
    then show ?thesis
      using fprop_net_wp [of L engine src_dims dst_dims src_sizes kernel_sizes dst_sizes
        strides padding pool_type input_src_md data_type opkernel w]
      by (simp add: wp_def split: prod.splits sum.splits)
  next
    assume "m = create_mkldnn_pool_bprop_kernel L engine src_dims dst_dims src_sizes
      kernel_sizes dst_sizes strides padding pool_type input_src_md data_type fprop_opkernel
      opkernel"
    then show ?thesis
      using bprop_net_wp [of L engine src_dims dst_dims src_sizes kernel_sizes dst_sizes
        strides padding pool_type input_src_md data_type fprop_opkernel opkernel w]
      by (simp add: wp_def split: prod.splits sum.splits)
  qed
  from wp_run [OF this assms(2)]
  have nets: "\<forall>q. net_of w' q = net_of w q" if "r = Inl e" for e
    using that by simp
  have "Suc i = length new \<and> r = Inl (Fatal (nth_status L (calls w) new i)) \<and>
      (\<forall>q. net_of w' q = net_of w q)"
    if "i < length new" "nth_status L (calls w) new i \<noteq> mkldnn_success" for i
    using stops_at_failure_nth [OF new(2) that] nets by blast
  moreover have "all_succeed L (calls w) new" if "r = Inr ()"
    using new(2) that by (simp add: stops_at_failure_def)
  ultimately show ?thesis
    using new(1) new_eq by simp
qed

lemma fwd_failing_example_log:
  "new_calls two_kernels (snd (fwd_failing_example two_kernels)) =
     [MemoryDescInit 4 [8, 16, 32, 32] (DataType 1) mkldnn_chwn,
      MemoryDescInit 5 [8, 16, 16, 16] (DataType 1) mkldnn_any]"
  by (simp add: run_defs new_calls_def)

theorem failed_call_aborts_witness:
  "new_calls two_kernels (snd (fwd_failing_example two_kernels)) =
     [MemoryDescInit 4 [8, 16, 32, 32] (DataType 1) mkldnn_chwn,
      MemoryDescInit 5 [8, 16, 16, 16] (DataType 1) mkldnn_any] \<and>
   fst (fwd_failing_example two_kernels) = Inl (Fatal (status_other 3)) \<and>
   net_of (snd (fwd_failing_example two_kernels)) 1 = net_of two_kernels 1"
proof -
  let ?new = "new_calls two_kernels (snd (fwd_failing_example two_kernels))"
  have run: "fwd_failing_example two_kernels =
      (fst (fwd_failing_example two_kernels), snd (fwd_failing_example two_kernels))"
    by simp
  have status: "nth_status (ref_api mkldnn_chwn) (calls two_kernels) ?new 1 = status_other 3"
    unfolding fwd_failing_example_log nth_status_def by (simp add: ref_api_def)
  have len: "1 < length ?new"
    unfolding fwd_failing_example_log by simp
  have failed: "nth_status (ref_api mkldnn_chwn) (calls two_kernels) ?new 1 \<noteq> mkldnn_success"
    unfolding status by simp
  from failed_call_aborts [OF disjI1 [OF refl] run]
  have "\<forall>i < length ?new.
      nth_status (ref_api mkldnn_chwn) (calls two_kernels) ?new i \<noteq> mkldnn_success \<longrightarrow>
        Suc i = length ?new \<and>
        fst (fwd_failing_example two_kernels) =
          Inl (Fatal (nth_status (ref_api mkldnn_chwn) (calls two_kernels) ?new i)) \<and>
        (\<forall>q. net_of (snd (fwd_failing_example two_kernels)) q = net_of two_kernels q)"
    by (rule conjunct2 [THEN conjunct1])
  with len failed
  have "fst (fwd_failing_example two_kernels) =
          Inl (Fatal (nth_status (ref_api mkldnn_chwn) (calls two_kernels) ?new 1)) \<and>
        (\<forall>q. net_of (snd (fwd_failing_example two_kernels)) q = net_of two_kernels q)"
    by blast
  with status fwd_failing_example_log show ?thesis
    by simp
qed

end
